theory Spec2Isabelle
  imports Main "HOL-Library.Word" "HOL-Library.Sublist"
begin

unbundle bit_operations_syntax

section \<open>Query generation of the render3 view compiler\<close>

text \<open>
  A shallow embedding of \<^verbatim>\<open>packages/compiler/src/render3/view/query_generation.ts\<close>:
  \<^verbatim>\<open>toQueryFlags\<close>, \<^verbatim>\<open>getQueryPredicate\<close>, \<^verbatim>\<open>createQueryCreateCall\<close>,
  \<^verbatim>\<open>createViewQueriesFunction\<close> and \<^verbatim>\<open>createContentQueriesFunction\<close>.

  The file builds values of the output AST and calls three collaborators that live in
  other files: the constant pool, the temporary allocator and the render-flag gate.
  The AST nodes are a datatype; the collaborators are parameters of the functions
  (a record \<open>externals\<close>), and the mutation of the pool, of the allocator and of the
  two statement arrays is explicit state passing.
\<close>

subsection \<open>Strings\<close>

text \<open>
  JavaScript strings are modelled as \<open>string\<close>, lists of 8-bit characters: the code
  units below 256. \<^verbatim>\<open>String.prototype.trim\<close> removes white space and line terminators
  at both ends; the ones in this range are TAB, LF, VT, FF, CR, SPACE and NBSP.
\<close>

definition isWhiteSpace :: "char \<Rightarrow> bool" where
  "isWhiteSpace c =
     (c = CHR 0x09 \<or> c = CHR 0x0A \<or> c = CHR 0x0B \<or> c = CHR 0x0C \<or> c = CHR 0x0D \<or>
      c = CHR 0x20 \<or> c = CHR 0xA0)"

definition trim :: "string \<Rightarrow> string" where
  "trim s = rev (dropWhile isWhiteSpace (rev (dropWhile isWhiteSpace s)))"

text \<open>
  \<^verbatim>\<open>s.split(sep)\<close> for a separator of one character: the pieces between the
  separators, empty pieces included; the empty string gives one empty piece.
\<close>

fun split :: "string \<Rightarrow> char \<Rightarrow> string list" where
  "split [] sep = [[]]"
| "split (c # cs) sep =
     (if c = sep then [] # split cs sep
      else (case split cs sep of
              [] \<Rightarrow> [[c]]
            | piece # pieces \<Rightarrow> (c # piece) # pieces))"

text \<open>
  \<^verbatim>\<open>pieces.join(sep)\<close>, the inverse of \<open>split\<close>; it is used to say what \<open>split\<close>
  computes.
\<close>

fun join :: "string list \<Rightarrow> char \<Rightarrow> string" where
  "join [] sep = []"
| "join [piece] sep = piece"
| "join (piece # next # pieces) sep = piece @ sep # join (next # pieces) sep"

subsection \<open>The output AST\<close>

text \<open>
  The nodes of \<^verbatim>\<open>output_ast\<close> that this file builds, named as the classes are:
  \<^verbatim>\<open>o.literal(v)\<close> is \<open>LiteralExpr v\<close>, \<^verbatim>\<open>o.literalArr(es)\<close> is \<open>LiteralArrayExpr es\<close>,
  \<^verbatim>\<open>o.variable(n)\<close> is \<open>ReadVarExpr n\<close>, \<^verbatim>\<open>e.prop(n)\<close> is \<open>ReadPropExpr e n\<close>,
  \<^verbatim>\<open>o.variable(n).set(v)\<close> is \<open>WriteVarExpr n v\<close>, \<^verbatim>\<open>e.prop(n).set(v)\<close> is
  \<open>WritePropExpr e n v\<close>, \<^verbatim>\<open>o.importExpr(r)\<close> is \<open>ExternalExpr r\<close>, \<^verbatim>\<open>f.callFn(args)\<close> is
  \<open>InvokeFunctionExpr f args\<close>, \<^verbatim>\<open>a.and(b)\<close> is \<open>BinaryOperatorExpr And a b\<close>,
  \<^verbatim>\<open>o.fn(params, body, type, null, name)\<close> is \<open>FunctionExpr params body type name\<close> and
  \<^verbatim>\<open>e.toStmt()\<close> is \<open>ExpressionStatement e\<close>. \<open>DeclareVarStmt n\<close> is the statement
  \<^verbatim>\<open>new o.DeclareVarStmt(n)\<close>, the declaration of the variable \<open>n\<close>; this file builds none,
  an allocator may.

  \<open>Undefined\<close> is the JavaScript value \<^verbatim>\<open>undefined\<close>. It is no node of the AST: it is
  what a function returns when its body ends without a \<^verbatim>\<open>return\<close>.

  Modelled from the spec: the instruction identifier table \<^verbatim>\<open>R3\<close> (fixed external
  references, uninterpreted tokens) is the datatype \<open>ExternalReference\<close>, and the phase
  gate \<^verbatim>\<open>renderFlagCheckIfStmt(flag, statements)\<close> (opaque, a statement that runs
  \<^verbatim>\<open>statements\<close> when the phase includes \<^verbatim>\<open>flag\<close>) is the constructor
  \<open>renderFlagCheckIfStmt\<close>.
\<close>

datatype ExternalReference =
    viewQuery | viewQuerySignal | contentQuery | contentQuerySignal
  | queryAdvance | loadQuery | queryRefresh | resolveForwardRef

datatype RenderFlags = Create | Update

datatype Type = NUMBER_TYPE | INFERRED_TYPE

datatype LiteralValue = StringValue string | NumberValue int

datatype FnParam = FnParam string "Type option"

datatype BinaryOperator = And

datatype Expression =
    LiteralExpr LiteralValue
  | LiteralArrayExpr "Expression list"
  | ReadVarExpr string
  | WriteVarExpr string Expression
  | ReadPropExpr Expression string
  | WritePropExpr Expression string Expression
  | ExternalExpr ExternalReference
  | InvokeFunctionExpr Expression "Expression list"
  | BinaryOperatorExpr BinaryOperator Expression Expression
  | FunctionExpr "FnParam list" "Statement list" Type "string option"
  | Undefined
and Statement =
    ExpressionStatement Expression
  | DeclareVarStmt string
  | renderFlagCheckIfStmt RenderFlags "Statement list"

subsection \<open>Query metadata\<close>

text \<open>
  \<^verbatim>\<open>ForwardRefHandling\<close> is an enum of three members. \<open>Unrecognized n\<close> stands for a
  run-time value that is none of them; the TypeScript type excludes it.
\<close>

datatype ForwardRefHandling = None' | Wrapped | Unwrapped | Unrecognized int

text \<open>
  \<^verbatim>\<open>predicate: MaybeForwardRefExpression | string[]\<close>: the source tells the two
  apart with \<^verbatim>\<open>Array.isArray\<close>.
\<close>

datatype QueryPredicate =
    Selectors "string list"
  | MaybeForwardRefExpression Expression ForwardRefHandling

record R3QueryMetadata =
  propertyName :: string
  first :: bool
  predicate :: QueryPredicate
  descendants :: bool
  emitDistinctChangesOnly :: bool
  read :: "Expression option"
  static :: bool
  isSignal :: bool

subsection \<open>Collaborators\<close>

text \<open>
  What the file imports and this development does not have the source of. The names
  are the constants of \<^verbatim>\<open>./util\<close>. \<open>getConstLiteral pool literal forceShared\<close> is
  \<^verbatim>\<open>constantPool.getConstLiteral(literal, forceShared)\<close>: it answers an expression and
  the pool it leaves behind. \<open>temporaryAllocator name\<close> is the closure that
  \<^verbatim>\<open>temporaryAllocator(statements, name)\<close> returns, as its private state; the closure
  holds the array \<^verbatim>\<open>statements\<close> by reference, so a call of it,
  \<open>tempAllocator state statements\<close>, takes the array as it is then and answers the name
  of the variable it yields (the call returns \<^verbatim>\<open>o.variable\<close> of it), its next state
  and the array as it leaves it.
\<close>

record ('pool, 'alloc) externals =
  CONTEXT_NAME :: string
  RENDER_FLAGS :: string
  TEMPORARY_NAME :: string
  getConstLiteral :: "'pool \<Rightarrow> Expression \<Rightarrow> bool \<Rightarrow> Expression \<times> 'pool"
  temporaryAllocator :: "string \<Rightarrow> 'alloc"
  tempAllocator :: "'alloc \<Rightarrow> Statement list \<Rightarrow> string \<times> 'alloc \<times> Statement list"

subsection \<open>Query flags\<close>

text \<open>The members of the const enum \<^verbatim>\<open>QueryFlags\<close>.\<close>

definition QueryFlags_none :: int where
  "QueryFlags_none = 0"

definition QueryFlags_descendants :: int where
  "QueryFlags_descendants = 1"

definition QueryFlags_isStatic :: int where
  "QueryFlags_isStatic = 2"

definition QueryFlags_emitDistinctChangesOnly :: int where
  "QueryFlags_emitDistinctChangesOnly = 4"

text \<open>
  The operator \<^verbatim>\<open>|\<close> of JavaScript: both operands are converted to 32-bit integers,
  the result is read as a signed 32-bit integer.
\<close>

definition bitOr :: "int \<Rightarrow> int \<Rightarrow> int" where
  "bitOr a b = sint ((word_of_int a :: 32 word) OR word_of_int b)"

definition toQueryFlags :: "R3QueryMetadata \<Rightarrow> int" where
  "toQueryFlags query =
     bitOr
       (bitOr (if descendants query then QueryFlags_descendants else QueryFlags_none)
              (if static query then QueryFlags_isStatic else QueryFlags_none))
       (if emitDistinctChangesOnly query then QueryFlags_emitDistinctChangesOnly
        else QueryFlags_none)"

subsection \<open>getQueryPredicate\<close>

text \<open>
  The body of the \<^verbatim>\<open>forEach\<close> over the selectors: the pieces of one selector are
  pushed onto the array built so far.
\<close>

definition pushSelectors :: "string \<Rightarrow> Expression list \<Rightarrow> Expression list" where
  "pushSelectors selector acc =
     (let selectors = map (\<lambda>token. LiteralExpr (StringValue (trim token)))
                          (split selector CHR '','')
      in acc @ selectors)"

text \<open>
  The \<^verbatim>\<open>switch\<close> has the three cases of the enum and no \<^verbatim>\<open>default\<close>; with any other
  value no case matches, the function body ends and the call returns \<^verbatim>\<open>undefined\<close>.
  The function has no \<^verbatim>\<open>throw\<close>.
\<close>

definition getQueryPredicate ::
  "('pool, 'alloc) externals \<Rightarrow> R3QueryMetadata \<Rightarrow> 'pool \<Rightarrow> Expression \<times> 'pool" where
  "getQueryPredicate ext query constantPool =
     (case predicate query of
        Selectors selectorList \<Rightarrow>
          (let predicateArr = fold pushSelectors selectorList []
           in getConstLiteral ext constantPool (LiteralArrayExpr predicateArr) True)
      | MaybeForwardRefExpression expression forwardRef \<Rightarrow>
          (case forwardRef of
             None' \<Rightarrow> (expression, constantPool)
           | Unwrapped \<Rightarrow> (expression, constantPool)
           | Wrapped \<Rightarrow>
               (InvokeFunctionExpr (ExternalExpr resolveForwardRef) [expression], constantPool)
           | Unrecognized n \<Rightarrow> (Undefined, constantPool)))"

subsection \<open>createQueryCreateCall\<close>

record queryTypeFns =
  signalBased :: ExternalReference
  nonSignal :: ExternalReference

definition createQueryCreateCall ::
  "('pool, 'alloc) externals \<Rightarrow> R3QueryMetadata \<Rightarrow> 'pool \<Rightarrow> queryTypeFns \<Rightarrow>
   Expression list option \<Rightarrow> Expression \<times> 'pool" where
  "createQueryCreateCall ext query constantPool fns prependParams =
     (let parameters0 = [];
          parameters1 = (case prependParams of
                           None \<Rightarrow> parameters0
                         | Some ps \<Rightarrow> parameters0 @ ps);
          parameters2 = (if isSignal query
                         then parameters1 @
                              [ReadPropExpr (ReadVarExpr (CONTEXT_NAME ext)) (propertyName query)]
                         else parameters1);
          (resolved, constantPool') = getQueryPredicate ext query constantPool;
          parameters3 = parameters2 @ [resolved, LiteralExpr (NumberValue (toQueryFlags query))];
          parameters4 = (case read query of
                           None \<Rightarrow> parameters3
                         | Some r \<Rightarrow> parameters3 @ [r]);
          queryCreateFn = (if isSignal query then signalBased fns else nonSignal fns)
      in (InvokeFunctionExpr (ExternalExpr queryCreateFn) parameters4, constantPool'))"

subsection \<open>The two synthesizers\<close>

text \<open>
  The variables that the loop of a synthesizer changes: the two statement arrays, the
  constant pool and the state of the allocator's closure.
\<close>

record ('pool, 'alloc) locals =
  createStatements :: "Statement list"
  updateStatements :: "Statement list"
  pool :: 'pool
  allocator :: 'alloc

text \<open>
  The declarations that open both synthesizers: two empty arrays and the allocator made
  by \<^verbatim>\<open>temporaryAllocator(updateStatements, TEMPORARY_NAME)\<close>.
\<close>

definition initialLocals :: "('pool, 'alloc) externals \<Rightarrow> 'pool \<Rightarrow> ('pool, 'alloc) locals" where
  "initialLocals ext constantPool =
     \<lparr>createStatements = [], updateStatements = [], pool = constantPool,
      allocator = temporaryAllocator ext (TEMPORARY_NAME ext)\<rparr>"

text \<open>The callback of \<^verbatim>\<open>viewQueries.forEach\<close>; its \<^verbatim>\<open>return\<close> ends one call of it.\<close>

definition viewQueriesEach ::
  "('pool, 'alloc) externals \<Rightarrow> R3QueryMetadata \<Rightarrow> ('pool, 'alloc) locals \<Rightarrow>
   ('pool, 'alloc) locals" where
  "viewQueriesEach ext query st =
     (let (queryDefinitionCall, constantPool) =
            createQueryCreateCall ext query (pool st)
              \<lparr>signalBased = viewQuerySignal, nonSignal = viewQuery\<rparr> None;
          st1 = st\<lparr>createStatements :=
                     createStatements st @ [ExpressionStatement queryDefinitionCall],
                   pool := constantPool\<rparr>
      in if isSignal query
         then st1\<lparr>updateStatements :=
                    updateStatements st1 @
                    [ExpressionStatement (InvokeFunctionExpr (ExternalExpr queryAdvance) [])]\<rparr>
         else
           (let (temporary, alloc, statements) =
                  tempAllocator ext (allocator st1) (updateStatements st1);
                getQueryList = InvokeFunctionExpr (ExternalExpr loadQuery) [];
                refresh = InvokeFunctionExpr (ExternalExpr queryRefresh)
                            [WriteVarExpr temporary getQueryList];
                updateDirective =
                  WritePropExpr (ReadVarExpr (CONTEXT_NAME ext)) (propertyName query)
                    (if first query then ReadPropExpr (ReadVarExpr temporary) ''first''
                     else ReadVarExpr temporary)
            in st1\<lparr>updateStatements :=
                      statements @
                      [ExpressionStatement (BinaryOperatorExpr And refresh updateDirective)],
                    allocator := alloc\<rparr>))"

text \<open>The locals after the \<^verbatim>\<open>forEach\<close> has run over the descriptors, in their order.\<close>

definition viewQueriesLoop ::
  "('pool, 'alloc) externals \<Rightarrow> R3QueryMetadata list \<Rightarrow> 'pool \<Rightarrow> ('pool, 'alloc) locals" where
  "viewQueriesLoop ext viewQueries constantPool =
     fold (viewQueriesEach ext) viewQueries (initialLocals ext constantPool)"

text \<open>
  \<^verbatim>\<open>name ? `${name}_Query` : null\<close>: the test is JavaScript truthiness, which an absent
  name and the empty string both fail.
\<close>

definition createViewQueriesFunction ::
  "('pool, 'alloc) externals \<Rightarrow> R3QueryMetadata list \<Rightarrow> 'pool \<Rightarrow> string option \<Rightarrow>
   Expression \<times> 'pool" where
  "createViewQueriesFunction ext viewQueries constantPool name =
     (let st = viewQueriesLoop ext viewQueries constantPool;
          viewQueryFnName = (case name of
                               None \<Rightarrow> None
                             | Some n \<Rightarrow> if n = [] then None else Some (n @ ''_Query''))
      in (FunctionExpr
            [FnParam (RENDER_FLAGS ext) (Some NUMBER_TYPE), FnParam (CONTEXT_NAME ext) None]
            [renderFlagCheckIfStmt Create (createStatements st),
             renderFlagCheckIfStmt Update (updateStatements st)]
            INFERRED_TYPE viewQueryFnName,
          pool st))"

text \<open>The body of \<^verbatim>\<open>for (const query of queries)\<close>; its \<^verbatim>\<open>continue\<close> ends one round.\<close>

definition contentQueriesEach ::
  "('pool, 'alloc) externals \<Rightarrow> R3QueryMetadata \<Rightarrow> ('pool, 'alloc) locals \<Rightarrow>
   ('pool, 'alloc) locals" where
  "contentQueriesEach ext query st =
     (let (call, constantPool) =
            createQueryCreateCall ext query (pool st)
              \<lparr>signalBased = contentQuerySignal, nonSignal = contentQuery\<rparr>
              (Some [ReadVarExpr ''dirIndex'']);
          st1 = st\<lparr>createStatements := createStatements st @ [ExpressionStatement call],
                   pool := constantPool\<rparr>
      in if isSignal query
         then st1\<lparr>updateStatements :=
                    updateStatements st1 @
                    [ExpressionStatement (InvokeFunctionExpr (ExternalExpr queryAdvance) [])]\<rparr>
         else
           (let (temporary, alloc, statements) =
                  tempAllocator ext (allocator st1) (updateStatements st1);
                getQueryList = InvokeFunctionExpr (ExternalExpr loadQuery) [];
                refresh = InvokeFunctionExpr (ExternalExpr queryRefresh)
                            [WriteVarExpr temporary getQueryList];
                updateDirective =
                  WritePropExpr (ReadVarExpr (CONTEXT_NAME ext)) (propertyName query)
                    (if first query then ReadPropExpr (ReadVarExpr temporary) ''first''
                     else ReadVarExpr temporary)
            in st1\<lparr>updateStatements :=
                      statements @
                      [ExpressionStatement (BinaryOperatorExpr And refresh updateDirective)],
                    allocator := alloc\<rparr>))"

text \<open>The locals after the \<^verbatim>\<open>for\<close> loop has run over the descriptors, in their order.\<close>

definition contentQueriesLoop ::
  "('pool, 'alloc) externals \<Rightarrow> R3QueryMetadata list \<Rightarrow> 'pool \<Rightarrow> ('pool, 'alloc) locals" where
  "contentQueriesLoop ext queries constantPool =
     fold (contentQueriesEach ext) queries (initialLocals ext constantPool)"

definition createContentQueriesFunction ::
  "('pool, 'alloc) externals \<Rightarrow> R3QueryMetadata list \<Rightarrow> 'pool \<Rightarrow> string option \<Rightarrow>
   Expression \<times> 'pool" where
  "createContentQueriesFunction ext queries constantPool name =
     (let st = contentQueriesLoop ext queries constantPool;
          contentQueriesFnName = (case name of
                                    None \<Rightarrow> None
                                  | Some n \<Rightarrow>
                                      if n = [] then None else Some (n @ ''_ContentQueries''))
      in (FunctionExpr
            [FnParam (RENDER_FLAGS ext) (Some NUMBER_TYPE), FnParam (CONTEXT_NAME ext) None,
             FnParam ''dirIndex'' None]
            [renderFlagCheckIfStmt Create (createStatements st),
             renderFlagCheckIfStmt Update (updateStatements st)]
            INFERRED_TYPE contentQueriesFnName,
          pool st))"

subsection \<open>A sample of the collaborators\<close>

text \<open>
  Modelled from the spec: an instance of the collaborators, used to evaluate the
  theorems at concrete inputs. The constant pool "maps a literal-array value to a
  shared reference; requesting the same literal array twice (structural equality)
  yields the identical reference": here the pool is the list of the literals requested
  so far, and the reference to the literal at position \<open>i\<close> is a variable whose name is
  \<^verbatim>\<open>_c\<close> followed by \<open>i\<close> primes. The temporary allocator "yields a reusable
  local-variable reference, scoped to one generated function": here it yields the
  variable of the name it was created with, every time, and leaves the statements it
  was handed as they are.
\<close>

fun indexOf :: "'a list \<Rightarrow> 'a \<Rightarrow> nat option" where
  "indexOf [] x = None"
| "indexOf (y # ys) x = (if y = x then Some 0 else map_option Suc (indexOf ys x))"

definition sampleGetConstLiteral ::
  "Expression list \<Rightarrow> Expression \<Rightarrow> bool \<Rightarrow> Expression \<times> Expression list" where
  "sampleGetConstLiteral constantPool literal forceShared =
     (case indexOf constantPool literal of
        Some i \<Rightarrow> (ReadVarExpr (''_c'' @ replicate i (CHR 0x27)), constantPool)
      | None \<Rightarrow>
          (ReadVarExpr (''_c'' @ replicate (length constantPool) (CHR 0x27)),
           constantPool @ [literal]))"

definition sampleExternals :: "(Expression list, string) externals" where
  "sampleExternals =
     \<lparr>CONTEXT_NAME = ''ctx'', RENDER_FLAGS = ''rf'', TEMPORARY_NAME = ''_t'',
      getConstLiteral = sampleGetConstLiteral,
      temporaryAllocator = (\<lambda>name. name),
      tempAllocator = (\<lambda>name statements. (name, name, statements))\<rparr>"

text \<open>The two descriptors of the end-to-end example of the spec, and a third one.\<close>

definition sampleRefQuery :: R3QueryMetadata where
  "sampleRefQuery =
     \<lparr>propertyName = ''items'', first = True, predicate = Selectors [''ref''],
      descendants = True, emitDistinctChangesOnly = False, read = None, static = False,
      isSignal = False\<rparr>"

definition sampleSignalQuery :: R3QueryMetadata where
  "sampleSignalQuery =
     \<lparr>propertyName = ''child'', first = False,
      predicate = MaybeForwardRefExpression (ReadVarExpr ''Child'') None',
      descendants = False, emitDistinctChangesOnly = False, read = None, static = False,
      isSignal = True\<rparr>"

definition sampleWrappedQuery :: R3QueryMetadata where
  "sampleWrappedQuery =
     \<lparr>propertyName = ''panes'', first = False,
      predicate = MaybeForwardRefExpression (ReadVarExpr ''Pane'') Wrapped,
      descendants = True, emitDistinctChangesOnly = True,
      read = Some (ReadVarExpr ''ElementRef''), static = False, isSignal = False\<rparr>"

subsection \<open>The update statement of one descriptor, after the spec\<close>

text \<open>
  Section 4.4 of the spec: a signal query gets a zero-argument call of the advance
  instruction; any other gets the refresh call, which assigns the load call to the
  temporary, and-ed with the write of the temporary, or of its \<^verbatim>\<open>first\<close>, to the
  property of the context. The synthesizers above do not use this definition: the
  theorems compare them with it.
\<close>

definition specUpdateStatement ::
  "('pool, 'alloc) externals \<Rightarrow> string \<Rightarrow> R3QueryMetadata \<Rightarrow> Statement" where
  "specUpdateStatement ext temporary query =
     (if isSignal query
      then ExpressionStatement (InvokeFunctionExpr (ExternalExpr queryAdvance) [])
      else ExpressionStatement
             (BinaryOperatorExpr And
                (InvokeFunctionExpr (ExternalExpr queryRefresh)
                   [WriteVarExpr temporary (InvokeFunctionExpr (ExternalExpr loadQuery) [])])
                (WritePropExpr (ReadVarExpr (CONTEXT_NAME ext)) (propertyName query)
                   (if first query then ReadPropExpr (ReadVarExpr temporary) ''first''
                    else ReadVarExpr temporary))))"

subsection \<open>Allocators that add to the update statements\<close>

text \<open>
  Both synthesizers hand \<^verbatim>\<open>updateStatements\<close> to \<^verbatim>\<open>temporaryAllocator\<close> (lines 116 and
  159) and call the allocator before they push the statement of a query that is no
  signal query (lines 135 and 178): the allocator can add statements of its own to the
  update block. \<open>appendsOnly\<close> says of an allocator that it leaves what the array holds
  in place and adds at its end, if it adds at all.
\<close>

definition appendsOnly :: "('pool, 'alloc) externals \<Rightarrow> bool" where
  "appendsOnly ext =
     (\<forall>state statements. prefix statements (snd (snd (tempAllocator ext state statements))))"

text \<open>
  \<open>declaringExternals\<close> are the sample collaborators with an allocator of that kind: at
  its first call it appends the declaration of its variable, \<^verbatim>\<open>new o.DeclareVarStmt(name)\<close>,
  to the statements, and it yields the same variable at every call. Its state is the
  name and whether the variable is declared. The update blocks that the compiler emits
  open with such a declaration of the temporary.
\<close>

definition declaringExternals :: "(Expression list, string \<times> bool) externals" where
  "declaringExternals =
     \<lparr>CONTEXT_NAME = ''ctx'', RENDER_FLAGS = ''rf'', TEMPORARY_NAME = ''_t'',
      getConstLiteral = sampleGetConstLiteral,
      temporaryAllocator = (\<lambda>name. (name, False)),
      tempAllocator = (\<lambda>state statements.
        (fst state, (fst state, True),
         if snd state then statements else statements @ [DeclareVarStmt (fst state)]))\<rparr>"

section \<open>Strings: what split and trim compute\<close>

lemma split_not_Nil: "split s sep \<noteq> []"
  by (induction s) (auto split: list.splits)

text \<open>Joining the pieces with the separator gives the string back.\<close>

lemma join_split: "join (split s sep) sep = s"
proof (induction s)
  case Nil
  then show ?case by simp
next
  case (Cons c cs)
  then show ?case
    using split_not_Nil [of cs sep]
    by (cases "split cs sep"; cases "tl (split cs sep)") auto
qed

text \<open>No piece holds a separator, and there is one piece more than separators.\<close>

lemma split_no_sep: "piece \<in> set (split s sep) \<Longrightarrow> sep \<notin> set piece"
  by (induction s arbitrary: piece) (auto split: list.splits if_splits)

lemma split_length: "length (split s sep) = Suc (length (filter (\<lambda>c. c = sep) s))"
  by (induction s) (auto split: list.splits simp: split_not_Nil)

lemma rev_dropWhile_takeWhile:
  "xs = rev (dropWhile P (rev xs)) @ rev (takeWhile P (rev xs))"
  by (metis rev_append rev_rev_ident takeWhile_dropWhile_id)

text \<open>
  The trimmed string is the string without a run of white space at its start and one
  at its end, and it neither starts nor ends with white space.
\<close>

lemma trim_decomp:
  "\<exists>pre suf. s = pre @ trim s @ suf \<and> list_all isWhiteSpace pre \<and> list_all isWhiteSpace suf"
proof -
  let ?a = "takeWhile isWhiteSpace s"
  let ?r = "dropWhile isWhiteSpace s"
  let ?b = "rev (takeWhile isWhiteSpace (rev ?r))"
  have 1: "s = ?a @ ?r" by simp
  have 2: "?r = trim s @ ?b"
    unfolding trim_def by (rule rev_dropWhile_takeWhile)
  have 3: "list_all isWhiteSpace ?a"
    by (simp add: list_all_iff) (meson set_takeWhileD)
  have 4: "list_all isWhiteSpace ?b"
    by (simp add: list_all_iff) (meson set_takeWhileD)
  from 1 2 have "s = ?a @ trim s @ ?b" by simp
  with 3 4 show ?thesis by blast
qed

lemma trim_hd: "trim s \<noteq> [] \<Longrightarrow> \<not> isWhiteSpace (hd (trim s))"
proof -
  assume ne: "trim s \<noteq> []"
  let ?r = "dropWhile isWhiteSpace s"
  let ?b = "rev (takeWhile isWhiteSpace (rev ?r))"
  have r: "?r = trim s @ ?b"
    unfolding trim_def by (rule rev_dropWhile_takeWhile)
  then have "?r \<noteq> []" using ne by (metis append_is_Nil_conv)
  then have "\<not> isWhiteSpace (hd ?r)" by (rule hd_dropWhile)
  moreover have "hd ?r = hd (trim s)" using r ne by (metis hd_append2)
  ultimately show ?thesis by simp
qed

lemma trim_last: "trim s \<noteq> [] \<Longrightarrow> \<not> isWhiteSpace (last (trim s))"
proof -
  assume ne: "trim s \<noteq> []"
  let ?d = "dropWhile isWhiteSpace (rev (dropWhile isWhiteSpace s))"
  have dne: "?d \<noteq> []" using ne by (simp add: trim_def)
  then have "\<not> isWhiteSpace (hd ?d)" by (rule hd_dropWhile)
  then show ?thesis using dne by (simp add: trim_def last_rev)
qed

section \<open>Query flags\<close>

lemma bitOr_small:
  "bitOr 0 0 = 0" "bitOr 1 0 = 1" "bitOr 0 2 = 2" "bitOr 1 2 = 3"
  "bitOr 2 0 = 2" "bitOr 3 0 = 3"
  "bitOr 0 4 = 4" "bitOr 1 4 = 5" "bitOr 2 4 = 6" "bitOr 3 4 = 7"
  by (simp_all add: bitOr_def)

text \<open>
  C3: the flags of a descriptor are the bitwise OR of 1 if \<open>descendants\<close>, 2 if \<open>static\<close>
  and 4 if \<open>emitDistinctChangesOnly\<close>, an absent trait giving 0, and that is the sum of
  the three contributions: no bit depends on another. The OR on the right is the one of
  the unbounded integers.
\<close>

theorem toQueryFlags_bits:
  "toQueryFlags query =
     (if descendants query then 1 else 0) OR (if static query then 2 else 0) OR
     (if emitDistinctChangesOnly query then 4 else 0) \<and>
   toQueryFlags query =
     (if descendants query then 1 else 0) + (if static query then 2 else 0) +
     (if emitDistinctChangesOnly query then 4 else 0)"
  by (simp add: toQueryFlags_def QueryFlags_none_def QueryFlags_descendants_def
      QueryFlags_isStatic_def QueryFlags_emitDistinctChangesOnly_def bitOr_small)

text \<open>
  The example of the claim: \<open>descendants\<close> and \<open>emitDistinctChangesOnly\<close> without
  \<open>static\<close> encode to binary 0101.
\<close>

theorem toQueryFlags_bits_witness:
  "toQueryFlags
     \<lparr>propertyName = ''items'', first = False, predicate = Selectors [''ref''],
      descendants = True, emitDistinctChangesOnly = True, read = None, static = False,
      isSignal = False\<rparr> = 5"
  using toQueryFlags_bits [of
     "\<lparr>propertyName = ''items'', first = False, predicate = Selectors [''ref''],
      descendants = True, emitDistinctChangesOnly = True, read = None, static = False,
      isSignal = False\<rparr>"]
  by simp

section \<open>The predicate\<close>

lemma fold_pushSelectors:
  "fold pushSelectors selectorList acc =
     acc @ map (\<lambda>piece. LiteralExpr (StringValue piece))
             (concat (map (\<lambda>selector. map trim (split selector CHR '','')) selectorList))"
  by (induction selectorList arbitrary: acc) (simp_all add: pushSelectors_def)

text \<open>
  C4: for a selector list, \<open>getQueryPredicate\<close> splits every selector on commas, in the
  order of the list, trims every piece, makes each a string literal in one flat list
  (order and duplicates kept), wraps the list as a literal array and asks the constant
  pool for it with the force-shared flag true. What \<open>split\<close> and \<open>trim\<close> compute is
  \<open>join_split\<close>, \<open>split_no_sep\<close>, \<open>trim_decomp\<close>, \<open>trim_hd\<close> and \<open>trim_last\<close>.
\<close>

theorem getQueryPredicate_selectors:
  assumes "predicate query = Selectors selectorList"
  shows "getQueryPredicate ext query constantPool =
     getConstLiteral ext constantPool
       (LiteralArrayExpr
          (map (\<lambda>piece. LiteralExpr (StringValue piece))
             (concat (map (\<lambda>selector. map trim (split selector CHR '','')) selectorList))))
       True"
  using assms by (simp add: getQueryPredicate_def fold_pushSelectors)

text \<open>
  The example of the claim: the selectors \<^verbatim>\<open>"a, b"\<close> and \<^verbatim>\<open>"c"\<close> flatten to the literals
  \<^verbatim>\<open>"a"\<close>, \<^verbatim>\<open>"b"\<close>, \<^verbatim>\<open>"c"\<close>, which the sample pool stores and answers with a reference.
\<close>

theorem getQueryPredicate_selectors_witness:
  "getQueryPredicate sampleExternals
     \<lparr>propertyName = ''refs'', first = False, predicate = Selectors [''a, b'', ''c''],
      descendants = True, emitDistinctChangesOnly = True, read = None, static = False,
      isSignal = False\<rparr> [] =
   (ReadVarExpr ''_c'',
    [LiteralArrayExpr
       [LiteralExpr (StringValue ''a''), LiteralExpr (StringValue ''b''),
        LiteralExpr (StringValue ''c'')]])"
  using getQueryPredicate_selectors [of
     "\<lparr>propertyName = ''refs'', first = False, predicate = Selectors [''a, b'', ''c''],
      descendants = True, emitDistinctChangesOnly = True, read = None, static = False,
      isSignal = False\<rparr>" "[''a, b'', ''c'']" sampleExternals "[]"]
  by (simp add: sampleExternals_def sampleGetConstLiteral_def trim_def isWhiteSpace_def)

text \<open>
  C5: for an expression predicate, the dispositions \<open>None'\<close> and \<open>Unwrapped\<close> give the
  expression of the predicate itself and \<open>Wrapped\<close> gives one call of the
  resolve-forward-reference instruction whose only argument is that expression; the
  pool is not touched. (Values have no identity here: the result is the expression
  that the descriptor holds, no copy is built.)
\<close>

theorem getQueryPredicate_forwardRef:
  assumes "predicate query = MaybeForwardRefExpression expression forwardRef"
  shows "(forwardRef = None' \<or> forwardRef = Unwrapped \<longrightarrow>
            getQueryPredicate ext query constantPool = (expression, constantPool)) \<and>
         (forwardRef = Wrapped \<longrightarrow>
            getQueryPredicate ext query constantPool =
              (InvokeFunctionExpr (ExternalExpr resolveForwardRef) [expression], constantPool))"
  using assms by (auto simp add: getQueryPredicate_def)

theorem getQueryPredicate_forwardRef_witness:
  "getQueryPredicate sampleExternals sampleSignalQuery [] = (ReadVarExpr ''Child'', []) \<and>
   getQueryPredicate sampleExternals (sampleSignalQuery\<lparr>predicate :=
       MaybeForwardRefExpression (ReadVarExpr ''Child'') Unwrapped\<rparr>) [] =
     (ReadVarExpr ''Child'', []) \<and>
   getQueryPredicate sampleExternals sampleWrappedQuery [] =
     (InvokeFunctionExpr (ExternalExpr resolveForwardRef) [ReadVarExpr ''Pane''], [])"
  using
    getQueryPredicate_forwardRef [of sampleSignalQuery "ReadVarExpr ''Child''" None'
      sampleExternals "[]"]
    getQueryPredicate_forwardRef [of "sampleSignalQuery\<lparr>predicate :=
       MaybeForwardRefExpression (ReadVarExpr ''Child'') Unwrapped\<rparr>" "ReadVarExpr ''Child''"
      Unwrapped sampleExternals "[]"]
    getQueryPredicate_forwardRef [of sampleWrappedQuery "ReadVarExpr ''Pane''" Wrapped
      sampleExternals "[]"]
  by (simp add: sampleSignalQuery_def sampleWrappedQuery_def)

text \<open>
  C2, as the claim states it, fails: with a disposition that is none of the three
  members the call raises nothing. No case of the \<^verbatim>\<open>switch\<close> matches, the body ends
  and the call returns \<^verbatim>\<open>undefined\<close> to its caller.
\<close>

theorem getQueryPredicate_unrecognized_returns:
  "getQueryPredicate sampleExternals
     (sampleSignalQuery\<lparr>predicate :=
        MaybeForwardRefExpression (ReadVarExpr ''Child'') (Unrecognized 3)\<rparr>) [] =
   (Undefined, [])"
  by (simp add: getQueryPredicate_def sampleSignalQuery_def)

text \<open>
  C2, amended: \<open>getQueryPredicate\<close> has no error path. For an expression predicate it
  always returns, leaving the pool as it was: an expression built from the predicate's
  when the disposition is one of the three members of the enum, and \<^verbatim>\<open>undefined\<close> for
  a run-time value outside the enum, which the type of the descriptor excludes.
\<close>

theorem getQueryPredicate_returns:
  assumes "predicate query = MaybeForwardRefExpression expression forwardRef"
  shows "getQueryPredicate ext query constantPool =
           ((case forwardRef of
               None' \<Rightarrow> expression
             | Unwrapped \<Rightarrow> expression
             | Wrapped \<Rightarrow> InvokeFunctionExpr (ExternalExpr resolveForwardRef) [expression]
             | Unrecognized n \<Rightarrow> Undefined), constantPool)"
  using assms by (simp add: getQueryPredicate_def split: ForwardRefHandling.splits)

theorem getQueryPredicate_returns_witness:
  "getQueryPredicate sampleExternals sampleWrappedQuery [LiteralArrayExpr []] =
     (InvokeFunctionExpr (ExternalExpr resolveForwardRef) [ReadVarExpr ''Pane''],
      [LiteralArrayExpr []]) \<and>
   getQueryPredicate sampleExternals
     (sampleWrappedQuery\<lparr>predicate :=
        MaybeForwardRefExpression (ReadVarExpr ''Pane'') (Unrecognized (- 1))\<rparr>)
     [LiteralArrayExpr []] =
     (Undefined, [LiteralArrayExpr []])"
  using
    getQueryPredicate_returns [of sampleWrappedQuery "ReadVarExpr ''Pane''" Wrapped
      sampleExternals "[LiteralArrayExpr []]"]
    getQueryPredicate_returns [of "sampleWrappedQuery\<lparr>predicate :=
        MaybeForwardRefExpression (ReadVarExpr ''Pane'') (Unrecognized (- 1))\<rparr>"
      "ReadVarExpr ''Pane''" "Unrecognized (- 1)" sampleExternals "[LiteralArrayExpr []]"]
  by (simp add: sampleWrappedQuery_def)

section \<open>The loop bodies\<close>

lemma createQueryCreateCall_pool:
  "snd (createQueryCreateCall ext query constantPool fns prependParams) =
     snd (getQueryPredicate ext query constantPool)"
  by (simp add: createQueryCreateCall_def Let_def split: prod.splits option.splits)

lemma viewQueriesEach_create:
  "createStatements (viewQueriesEach ext query st) =
     createStatements st @
     [ExpressionStatement (fst (createQueryCreateCall ext query (pool st)
        \<lparr>signalBased = viewQuerySignal, nonSignal = viewQuery\<rparr> None))]"
  by (simp add: viewQueriesEach_def Let_def split: prod.splits)

lemma viewQueriesEach_pool:
  "pool (viewQueriesEach ext query st) = snd (getQueryPredicate ext query (pool st))"
  using createQueryCreateCall_pool [of ext query "pool st"
      "\<lparr>signalBased = viewQuerySignal, nonSignal = viewQuery\<rparr>" None]
  by (auto simp add: viewQueriesEach_def Let_def split: prod.splits)

lemma viewQueriesEach_signal:
  "isSignal query \<Longrightarrow>
   updateStatements (viewQueriesEach ext query st) =
     updateStatements st @
     [ExpressionStatement (InvokeFunctionExpr (ExternalExpr queryAdvance) [])] \<and>
   allocator (viewQueriesEach ext query st) = allocator st"
  by (simp add: viewQueriesEach_def Let_def split: prod.splits)

lemma viewQueriesEach_nonSignal:
  "\<not> isSignal query \<Longrightarrow>
   tempAllocator ext (allocator st) (updateStatements st) = (temporary, alloc, statements) \<Longrightarrow>
   updateStatements (viewQueriesEach ext query st) =
     statements @ [specUpdateStatement ext temporary query] \<and>
   allocator (viewQueriesEach ext query st) = alloc"
  by (simp add: viewQueriesEach_def Let_def specUpdateStatement_def split: prod.splits)

lemma contentQueriesEach_create:
  "createStatements (contentQueriesEach ext query st) =
     createStatements st @
     [ExpressionStatement (fst (createQueryCreateCall ext query (pool st)
        \<lparr>signalBased = contentQuerySignal, nonSignal = contentQuery\<rparr>
        (Some [ReadVarExpr ''dirIndex''])))]"
  by (simp add: contentQueriesEach_def Let_def split: prod.splits)

lemma contentQueriesEach_pool:
  "pool (contentQueriesEach ext query st) = snd (getQueryPredicate ext query (pool st))"
  using createQueryCreateCall_pool [of ext query "pool st"
      "\<lparr>signalBased = contentQuerySignal, nonSignal = contentQuery\<rparr>"
      "Some [ReadVarExpr ''dirIndex'']"]
  by (auto simp add: contentQueriesEach_def Let_def split: prod.splits)

lemma contentQueriesEach_signal:
  "isSignal query \<Longrightarrow>
   updateStatements (contentQueriesEach ext query st) =
     updateStatements st @
     [ExpressionStatement (InvokeFunctionExpr (ExternalExpr queryAdvance) [])] \<and>
   allocator (contentQueriesEach ext query st) = allocator st"
  by (simp add: contentQueriesEach_def Let_def split: prod.splits)

lemma contentQueriesEach_nonSignal:
  "\<not> isSignal query \<Longrightarrow>
   tempAllocator ext (allocator st) (updateStatements st) = (temporary, alloc, statements) \<Longrightarrow>
   updateStatements (contentQueriesEach ext query st) =
     statements @ [specUpdateStatement ext temporary query] \<and>
   allocator (contentQueriesEach ext query st) = alloc"
  by (simp add: contentQueriesEach_def Let_def specUpdateStatement_def split: prod.splits)

text \<open>Both loop bodies do the same to the update statements, the pool and the allocator.\<close>

lemma each_update_same:
  assumes "updateStatements st = updateStatements st'" "pool st = pool st'"
    "allocator st = allocator st'"
  shows "updateStatements (contentQueriesEach ext query st) =
           updateStatements (viewQueriesEach ext query st') \<and>
         pool (contentQueriesEach ext query st) = pool (viewQueriesEach ext query st') \<and>
         allocator (contentQueriesEach ext query st) = allocator (viewQueriesEach ext query st')"
proof (cases "isSignal query")
  case True
  then show ?thesis
    using assms contentQueriesEach_signal [of query ext st] viewQueriesEach_signal [of query ext st']
    by (simp add: contentQueriesEach_pool viewQueriesEach_pool)
next
  case False
  obtain t a ss where al: "tempAllocator ext (allocator st) (updateStatements st) = (t, a, ss)"
    by (cases "tempAllocator ext (allocator st) (updateStatements st)") auto
  then have al': "tempAllocator ext (allocator st') (updateStatements st') = (t, a, ss)"
    using assms by simp
  show ?thesis
    using assms contentQueriesEach_nonSignal [OF False al] viewQueriesEach_nonSignal [OF False al']
    by (simp add: contentQueriesEach_pool viewQueriesEach_pool)
qed

lemma fold_update_same:
  assumes "updateStatements st = updateStatements st'" "pool st = pool st'"
    "allocator st = allocator st'"
  shows "updateStatements (fold (contentQueriesEach ext) qs st) =
           updateStatements (fold (viewQueriesEach ext) qs st') \<and>
         pool (fold (contentQueriesEach ext) qs st) = pool (fold (viewQueriesEach ext) qs st') \<and>
         allocator (fold (contentQueriesEach ext) qs st) =
           allocator (fold (viewQueriesEach ext) qs st')"
  using assms
proof (induction qs arbitrary: st st')
  case Nil
  then show ?case by simp
next
  case (Cons q qs)
  have "updateStatements (contentQueriesEach ext q st) =
           updateStatements (viewQueriesEach ext q st') \<and>
         pool (contentQueriesEach ext q st) = pool (viewQueriesEach ext q st') \<and>
         allocator (contentQueriesEach ext q st) = allocator (viewQueriesEach ext q st')"
    using Cons.prems by (rule each_update_same)
  then show ?case using Cons.IH by simp
qed

lemma loops_update_same:
  "updateStatements (contentQueriesLoop ext qs constantPool) =
     updateStatements (viewQueriesLoop ext qs constantPool) \<and>
   pool (contentQueriesLoop ext qs constantPool) = pool (viewQueriesLoop ext qs constantPool) \<and>
   allocator (contentQueriesLoop ext qs constantPool) =
     allocator (viewQueriesLoop ext qs constantPool)"
  unfolding contentQueriesLoop_def viewQueriesLoop_def
  by (rule fold_update_same) simp_all

section \<open>The statement lists of the loops\<close>

text \<open>The creation statements: one per round, appended.\<close>

lemma view_create_length:
  "length (createStatements (fold (viewQueriesEach ext) qs st)) =
     length (createStatements st) + length qs"
  by (induction qs arbitrary: st) (simp_all add: viewQueriesEach_create)

lemma content_create_length:
  "length (createStatements (fold (contentQueriesEach ext) qs st)) =
     length (createStatements st) + length qs"
  by (induction qs arbitrary: st) (simp_all add: contentQueriesEach_create)

lemma view_create_nth:
  "i < length qs \<Longrightarrow>
   createStatements (fold (viewQueriesEach ext) qs st) ! (length (createStatements st) + i) =
     ExpressionStatement (fst (createQueryCreateCall ext (qs ! i)
        (pool (fold (viewQueriesEach ext) (take i qs) st))
        \<lparr>signalBased = viewQuerySignal, nonSignal = viewQuery\<rparr> None))"
proof (induction qs arbitrary: i rule: rev_induct)
  case Nil
  then show ?case by simp
next
  case (snoc q qs)
  show ?case
  proof (cases "i < length qs")
    case True
    then show ?thesis
      using snoc.IH [OF True]
      by (simp add: viewQueriesEach_create nth_append view_create_length)
  next
    case False
    then have "i = length qs" using snoc.prems by simp
    then show ?thesis
      by (simp add: viewQueriesEach_create nth_append view_create_length)
  qed
qed

lemma content_create_nth:
  "i < length qs \<Longrightarrow>
   createStatements (fold (contentQueriesEach ext) qs st) ! (length (createStatements st) + i) =
     ExpressionStatement (fst (createQueryCreateCall ext (qs ! i)
        (pool (fold (contentQueriesEach ext) (take i qs) st))
        \<lparr>signalBased = contentQuerySignal, nonSignal = contentQuery\<rparr>
        (Some [ReadVarExpr ''dirIndex''])))"
proof (induction qs arbitrary: i rule: rev_induct)
  case Nil
  then show ?case by simp
next
  case (snoc q qs)
  show ?case
  proof (cases "i < length qs")
    case True
    then show ?thesis
      using snoc.IH [OF True]
      by (simp add: contentQueriesEach_create nth_append content_create_length)
  next
    case False
    then have "i = length qs" using snoc.prems by simp
    then show ?thesis
      by (simp add: contentQueriesEach_create nth_append content_create_length)
  qed
qed

section \<open>The creation call\<close>

text \<open>
  C6: \<open>createQueryCreateCall\<close> returns one call of \<open>signalBased\<close> for a signal query and
  of \<open>nonSignal\<close> otherwise, whose arguments are, in this order: the prepended arguments
  as given; for a signal query the read of the descriptor's property off the context;
  the resolved predicate; the flags as a literal; the \<open>read\<close> expression when there is
  one. So every creation statement of \<open>createContentQueriesFunction\<close>, one per
  descriptor, is a call whose first argument is the directive index.
\<close>

theorem createQueryCreateCall_arguments:
  "createQueryCreateCall ext query constantPool fns prependParams =
     (InvokeFunctionExpr
        (ExternalExpr (if isSignal query then signalBased fns else nonSignal fns))
        ((case prependParams of None \<Rightarrow> [] | Some ps \<Rightarrow> ps) @
         (if isSignal query
          then [ReadPropExpr (ReadVarExpr (CONTEXT_NAME ext)) (propertyName query)] else []) @
         [fst (getQueryPredicate ext query constantPool),
          LiteralExpr (NumberValue (toQueryFlags query))] @
         (case read query of None \<Rightarrow> [] | Some r \<Rightarrow> [r])),
      snd (getQueryPredicate ext query constantPool)) \<and>
   (\<exists>statements parameters body name' constantPool'.
      createContentQueriesFunction ext queries constantPool name =
        (FunctionExpr parameters (renderFlagCheckIfStmt Create statements # body)
           INFERRED_TYPE name', constantPool') \<and>
      length statements = length queries \<and>
      (\<forall>i<length queries. \<exists>instruction arguments.
         statements ! i =
           ExpressionStatement
             (InvokeFunctionExpr (ExternalExpr instruction)
                (ReadVarExpr ''dirIndex'' # arguments))))"
proof -
  have call: "\<And>q p fns pre. createQueryCreateCall ext q p fns pre =
     (InvokeFunctionExpr
        (ExternalExpr (if isSignal q then signalBased fns else nonSignal fns))
        ((case pre of None \<Rightarrow> [] | Some ps \<Rightarrow> ps) @
         (if isSignal q
          then [ReadPropExpr (ReadVarExpr (CONTEXT_NAME ext)) (propertyName q)] else []) @
         [fst (getQueryPredicate ext q p), LiteralExpr (NumberValue (toQueryFlags q))] @
         (case read q of None \<Rightarrow> [] | Some r \<Rightarrow> [r])),
      snd (getQueryPredicate ext q p))"
    by (simp add: createQueryCreateCall_def Let_def split: prod.splits option.splits)
  let ?st = "contentQueriesLoop ext queries constantPool"
  have len: "length (createStatements ?st) = length queries"
    by (simp add: contentQueriesLoop_def content_create_length initialLocals_def)
  have nth: "\<exists>instruction arguments.
         createStatements ?st ! i =
           ExpressionStatement
             (InvokeFunctionExpr (ExternalExpr instruction)
                (ReadVarExpr ''dirIndex'' # arguments))" if "i < length queries" for i
    using content_create_nth [OF that, of ext "initialLocals ext constantPool"]
    by (simp add: contentQueriesLoop_def initialLocals_def call)
  have "createContentQueriesFunction ext queries constantPool name =
        (FunctionExpr
           [FnParam (RENDER_FLAGS ext) (Some NUMBER_TYPE), FnParam (CONTEXT_NAME ext) None,
            FnParam ''dirIndex'' None]
           (renderFlagCheckIfStmt Create (createStatements ?st) #
            [renderFlagCheckIfStmt Update (updateStatements ?st)])
           INFERRED_TYPE
           (case name of None \<Rightarrow> None
            | Some n \<Rightarrow> if n = [] then None else Some (n @ ''_ContentQueries'')),
         pool ?st)"
    by (simp add: createContentQueriesFunction_def Let_def)
  with len nth call show ?thesis by blast
qed

lemmas evaluation =
  createViewQueriesFunction_def createContentQueriesFunction_def viewQueriesLoop_def
  contentQueriesLoop_def initialLocals_def viewQueriesEach_def contentQueriesEach_def
  createQueryCreateCall_def getQueryPredicate_def pushSelectors_def trim_def
  isWhiteSpace_def toQueryFlags_def QueryFlags_none_def QueryFlags_descendants_def
  QueryFlags_isStatic_def QueryFlags_emitDistinctChangesOnly_def bitOr_small
  sampleExternals_def sampleGetConstLiteral_def sampleRefQuery_def sampleSignalQuery_def
  sampleWrappedQuery_def specUpdateStatement_def Let_def

theorem createQueryCreateCall_arguments_witness:
  "createQueryCreateCall sampleExternals sampleWrappedQuery []
     \<lparr>signalBased = contentQuerySignal, nonSignal = contentQuery\<rparr>
     (Some [ReadVarExpr ''dirIndex'']) =
     (InvokeFunctionExpr (ExternalExpr contentQuery)
        [ReadVarExpr ''dirIndex'',
         InvokeFunctionExpr (ExternalExpr resolveForwardRef) [ReadVarExpr ''Pane''],
         LiteralExpr (NumberValue 5), ReadVarExpr ''ElementRef''], []) \<and>
   createQueryCreateCall sampleExternals sampleSignalQuery []
     \<lparr>signalBased = viewQuerySignal, nonSignal = viewQuery\<rparr> None =
     (InvokeFunctionExpr (ExternalExpr viewQuerySignal)
        [ReadPropExpr (ReadVarExpr ''ctx'') ''child'', ReadVarExpr ''Child'',
         LiteralExpr (NumberValue 0)], []) \<and>
   fst (createContentQueriesFunction sampleExternals [sampleRefQuery, sampleSignalQuery] []
          (Some ''Foo'')) =
     FunctionExpr
       [FnParam ''rf'' (Some NUMBER_TYPE), FnParam ''ctx'' None, FnParam ''dirIndex'' None]
       [renderFlagCheckIfStmt Create
          [ExpressionStatement
             (InvokeFunctionExpr (ExternalExpr contentQuery)
                [ReadVarExpr ''dirIndex'', ReadVarExpr ''_c'', LiteralExpr (NumberValue 1)]),
           ExpressionStatement
             (InvokeFunctionExpr (ExternalExpr contentQuerySignal)
                [ReadVarExpr ''dirIndex'', ReadPropExpr (ReadVarExpr ''ctx'') ''child'',
                 ReadVarExpr ''Child'', LiteralExpr (NumberValue 0)])],
        renderFlagCheckIfStmt Update
          [ExpressionStatement
             (BinaryOperatorExpr And
                (InvokeFunctionExpr (ExternalExpr queryRefresh)
                   [WriteVarExpr ''_t'' (InvokeFunctionExpr (ExternalExpr loadQuery) [])])
                (WritePropExpr (ReadVarExpr ''ctx'') ''items''
                   (ReadPropExpr (ReadVarExpr ''_t'') ''first''))),
           ExpressionStatement (InvokeFunctionExpr (ExternalExpr queryAdvance) [])]]
       INFERRED_TYPE (Some ''Foo_ContentQueries'')"
proof -
  note inst1 = createQueryCreateCall_arguments [of sampleExternals sampleWrappedQuery "[]"
      "\<lparr>signalBased = contentQuerySignal, nonSignal = contentQuery\<rparr>"
      "Some [ReadVarExpr ''dirIndex'']" "[sampleRefQuery, sampleSignalQuery]" "Some ''Foo''"]
  note inst2 = createQueryCreateCall_arguments [of sampleExternals sampleSignalQuery "[]"
      "\<lparr>signalBased = viewQuerySignal, nonSignal = viewQuery\<rparr>" None "[]" None]
  have a: "createQueryCreateCall sampleExternals sampleWrappedQuery []
     \<lparr>signalBased = contentQuerySignal, nonSignal = contentQuery\<rparr>
     (Some [ReadVarExpr ''dirIndex'']) =
     (InvokeFunctionExpr (ExternalExpr contentQuery)
        [ReadVarExpr ''dirIndex'',
         InvokeFunctionExpr (ExternalExpr resolveForwardRef) [ReadVarExpr ''Pane''],
         LiteralExpr (NumberValue 5), ReadVarExpr ''ElementRef''], [])"
    using inst1 [THEN conjunct1]
    by (simp add: sampleWrappedQuery_def getQueryPredicate_def toQueryFlags_def
        QueryFlags_none_def QueryFlags_descendants_def QueryFlags_isStatic_def
        QueryFlags_emitDistinctChangesOnly_def bitOr_small)
  have b: "createQueryCreateCall sampleExternals sampleSignalQuery []
     \<lparr>signalBased = viewQuerySignal, nonSignal = viewQuery\<rparr> None =
     (InvokeFunctionExpr (ExternalExpr viewQuerySignal)
        [ReadPropExpr (ReadVarExpr ''ctx'') ''child'', ReadVarExpr ''Child'',
         LiteralExpr (NumberValue 0)], [])"
    using inst2 [THEN conjunct1]
    by (simp add: sampleSignalQuery_def sampleExternals_def getQueryPredicate_def
        toQueryFlags_def QueryFlags_none_def QueryFlags_descendants_def
        QueryFlags_isStatic_def QueryFlags_emitDistinctChangesOnly_def bitOr_small)
  have c: "fst (createContentQueriesFunction sampleExternals [sampleRefQuery, sampleSignalQuery] []
          (Some ''Foo'')) =
     FunctionExpr
       [FnParam ''rf'' (Some NUMBER_TYPE), FnParam ''ctx'' None, FnParam ''dirIndex'' None]
       [renderFlagCheckIfStmt Create
          [ExpressionStatement
             (InvokeFunctionExpr (ExternalExpr contentQuery)
                [ReadVarExpr ''dirIndex'', ReadVarExpr ''_c'', LiteralExpr (NumberValue 1)]),
           ExpressionStatement
             (InvokeFunctionExpr (ExternalExpr contentQuerySignal)
                [ReadVarExpr ''dirIndex'', ReadPropExpr (ReadVarExpr ''ctx'') ''child'',
                 ReadVarExpr ''Child'', LiteralExpr (NumberValue 0)])],
        renderFlagCheckIfStmt Update
          [ExpressionStatement
             (BinaryOperatorExpr And
                (InvokeFunctionExpr (ExternalExpr queryRefresh)
                   [WriteVarExpr ''_t'' (InvokeFunctionExpr (ExternalExpr loadQuery) [])])
                (WritePropExpr (ReadVarExpr ''ctx'') ''items''
                   (ReadPropExpr (ReadVarExpr ''_t'') ''first''))),
           ExpressionStatement (InvokeFunctionExpr (ExternalExpr queryAdvance) [])]]
       INFERRED_TYPE (Some ''Foo_ContentQueries'')"
    by (simp add: evaluation)
  from a b c show ?thesis by simp
qed

section \<open>The update statements\<close>

text \<open>
  C7: a signal query, in the view and in the content synthesizer, adds one statement
  to the update statements, the call of the advance instruction with no argument,
  whatever \<open>first\<close> is; the allocator is not called (its state and the statements it
  could have changed stay as they were). A function synthesized from that one
  descriptor has this statement as its whole update block.
\<close>

theorem signal_query_advances:
  assumes "isSignal query"
  shows "updateStatements (viewQueriesEach ext query st) =
           updateStatements st @
           [ExpressionStatement (InvokeFunctionExpr (ExternalExpr queryAdvance) [])] \<and>
         allocator (viewQueriesEach ext query st) = allocator st \<and>
         updateStatements (contentQueriesEach ext query st) =
           updateStatements st @
           [ExpressionStatement (InvokeFunctionExpr (ExternalExpr queryAdvance) [])] \<and>
         allocator (contentQueriesEach ext query st) = allocator st \<and>
         (\<exists>parameters creation name' constantPool'.
            createViewQueriesFunction ext [query] constantPool name =
              (FunctionExpr parameters
                 [renderFlagCheckIfStmt Create creation,
                  renderFlagCheckIfStmt Update
                    [ExpressionStatement (InvokeFunctionExpr (ExternalExpr queryAdvance) [])]]
                 INFERRED_TYPE name', constantPool')) \<and>
         (\<exists>parameters creation name' constantPool'.
            createContentQueriesFunction ext [query] constantPool name =
              (FunctionExpr parameters
                 [renderFlagCheckIfStmt Create creation,
                  renderFlagCheckIfStmt Update
                    [ExpressionStatement (InvokeFunctionExpr (ExternalExpr queryAdvance) [])]]
                 INFERRED_TYPE name', constantPool'))"
proof -
  have v: "updateStatements (viewQueriesEach ext query s) =
           updateStatements s @
           [ExpressionStatement (InvokeFunctionExpr (ExternalExpr queryAdvance) [])] \<and>
         allocator (viewQueriesEach ext query s) = allocator s" for s
    using assms by (rule viewQueriesEach_signal)
  have c: "updateStatements (contentQueriesEach ext query s) =
           updateStatements s @
           [ExpressionStatement (InvokeFunctionExpr (ExternalExpr queryAdvance) [])] \<and>
         allocator (contentQueriesEach ext query s) = allocator s" for s
    using assms by (rule contentQueriesEach_signal)
  have fv: "createViewQueriesFunction ext [query] constantPool name =
      (FunctionExpr
         [FnParam (RENDER_FLAGS ext) (Some NUMBER_TYPE), FnParam (CONTEXT_NAME ext) None]
         [renderFlagCheckIfStmt Create
            (createStatements (viewQueriesLoop ext [query] constantPool)),
          renderFlagCheckIfStmt Update
            [ExpressionStatement (InvokeFunctionExpr (ExternalExpr queryAdvance) [])]]
         INFERRED_TYPE
         (case name of None \<Rightarrow> None
          | Some n \<Rightarrow> if n = [] then None else Some (n @ ''_Query'')),
       pool (viewQueriesLoop ext [query] constantPool))"
    using v [of "initialLocals ext constantPool"]
    by (simp add: createViewQueriesFunction_def viewQueriesLoop_def Let_def initialLocals_def)
  have fc: "createContentQueriesFunction ext [query] constantPool name =
      (FunctionExpr
         [FnParam (RENDER_FLAGS ext) (Some NUMBER_TYPE), FnParam (CONTEXT_NAME ext) None,
          FnParam ''dirIndex'' None]
         [renderFlagCheckIfStmt Create
            (createStatements (contentQueriesLoop ext [query] constantPool)),
          renderFlagCheckIfStmt Update
            [ExpressionStatement (InvokeFunctionExpr (ExternalExpr queryAdvance) [])]]
         INFERRED_TYPE
         (case name of None \<Rightarrow> None
          | Some n \<Rightarrow> if n = [] then None else Some (n @ ''_ContentQueries'')),
       pool (contentQueriesLoop ext [query] constantPool))"
    using c [of "initialLocals ext constantPool"]
    by (simp add: createContentQueriesFunction_def contentQueriesLoop_def Let_def
        initialLocals_def)
  from v [of st] c [of st] fv fc show ?thesis by blast
qed

text \<open>The same signal query with \<open>first\<close> false and with \<open>first\<close> true.\<close>

theorem signal_query_advances_witness:
  "isSignal sampleSignalQuery \<and> isSignal (sampleSignalQuery\<lparr>first := True\<rparr>) \<and>
   updateStatements
     (viewQueriesEach sampleExternals sampleSignalQuery (initialLocals sampleExternals [])) =
     [ExpressionStatement (InvokeFunctionExpr (ExternalExpr queryAdvance) [])] \<and>
   updateStatements
     (contentQueriesEach sampleExternals (sampleSignalQuery\<lparr>first := True\<rparr>)
        (initialLocals sampleExternals [])) =
     [ExpressionStatement (InvokeFunctionExpr (ExternalExpr queryAdvance) [])]"
proof -
  have s1: "isSignal sampleSignalQuery" by (simp add: sampleSignalQuery_def)
  have s2: "isSignal (sampleSignalQuery\<lparr>first := True\<rparr>)" by (simp add: sampleSignalQuery_def)
  show ?thesis
    using s1 s2
      signal_query_advances [OF s1, of sampleExternals "initialLocals sampleExternals []" "[]" None]
      signal_query_advances [OF s2, of sampleExternals "initialLocals sampleExternals []" "[]" None]
    by (simp add: initialLocals_def)
qed



section \<open>The synthesized functions\<close>

lemma createViewQueriesFunction_parts:
  "createViewQueriesFunction ext queries constantPool name =
     (FunctionExpr
        [FnParam (RENDER_FLAGS ext) (Some NUMBER_TYPE), FnParam (CONTEXT_NAME ext) None]
        [renderFlagCheckIfStmt Create
           (createStatements (viewQueriesLoop ext queries constantPool)),
         renderFlagCheckIfStmt Update
           (updateStatements (viewQueriesLoop ext queries constantPool))]
        INFERRED_TYPE
        (case name of None \<Rightarrow> None
         | Some n \<Rightarrow> if n = [] then None else Some (n @ ''_Query'')),
      pool (viewQueriesLoop ext queries constantPool))"
  by (simp add: createViewQueriesFunction_def Let_def)

lemma createContentQueriesFunction_parts:
  "createContentQueriesFunction ext queries constantPool name =
     (FunctionExpr
        [FnParam (RENDER_FLAGS ext) (Some NUMBER_TYPE), FnParam (CONTEXT_NAME ext) None,
         FnParam ''dirIndex'' None]
        [renderFlagCheckIfStmt Create
           (createStatements (contentQueriesLoop ext queries constantPool)),
         renderFlagCheckIfStmt Update
           (updateStatements (contentQueriesLoop ext queries constantPool))]
        INFERRED_TYPE
        (case name of None \<Rightarrow> None
         | Some n \<Rightarrow> if n = [] then None else Some (n @ ''_ContentQueries'')),
      pool (contentQueriesLoop ext queries constantPool))"
  by (simp add: createContentQueriesFunction_def Let_def)

lemma viewQueriesLoop_create_length:
  "length (createStatements (viewQueriesLoop ext qs constantPool)) = length qs"
  by (simp add: viewQueriesLoop_def view_create_length initialLocals_def)

lemma viewQueriesLoop_create_nth:
  "i < length qs \<Longrightarrow>
   createStatements (viewQueriesLoop ext qs constantPool) ! i =
     ExpressionStatement (fst (createQueryCreateCall ext (qs ! i)
        (pool (viewQueriesLoop ext (take i qs) constantPool))
        \<lparr>signalBased = viewQuerySignal, nonSignal = viewQuery\<rparr> None))"
  using view_create_nth [of i qs ext "initialLocals ext constantPool"]
  by (simp add: viewQueriesLoop_def initialLocals_def)

lemma contentQueriesLoop_create_length:
  "length (createStatements (contentQueriesLoop ext qs constantPool)) = length qs"
  by (simp add: contentQueriesLoop_def content_create_length initialLocals_def)

lemma contentQueriesLoop_create_nth:
  "i < length qs \<Longrightarrow>
   createStatements (contentQueriesLoop ext qs constantPool) ! i =
     ExpressionStatement (fst (createQueryCreateCall ext (qs ! i)
        (pool (contentQueriesLoop ext (take i qs) constantPool))
        \<lparr>signalBased = contentQuerySignal, nonSignal = contentQuery\<rparr>
        (Some [ReadVarExpr ''dirIndex''])))"
  using content_create_nth [of i qs ext "initialLocals ext constantPool"]
  by (simp add: contentQueriesLoop_def initialLocals_def)

text \<open>
  The update statements of a loop, for every allocator: a round appends one statement
  for its descriptor to what the allocator left, or to what was there when the
  allocator is not called.
\<close>

lemma viewQueriesEach_update:
  "updateStatements (viewQueriesEach ext query st) =
     (if isSignal query then updateStatements st
      else snd (snd (tempAllocator ext (allocator st) (updateStatements st)))) @
     [specUpdateStatement ext
        (fst (tempAllocator ext (allocator st) (updateStatements st))) query]"
proof (cases "isSignal query")
  case True
  then show ?thesis
    using viewQueriesEach_signal [OF True, of ext st] by (simp add: specUpdateStatement_def)
next
  case False
  obtain t a ss where al: "tempAllocator ext (allocator st) (updateStatements st) = (t, a, ss)"
    by (cases "tempAllocator ext (allocator st) (updateStatements st)") auto
  show ?thesis using False viewQueriesEach_nonSignal [OF False al] al by simp
qed

lemma viewQueriesLoop_round:
  assumes "i < length qs"
  shows "updateStatements (viewQueriesLoop ext (take (Suc i) qs) constantPool) =
     (if isSignal (qs ! i)
      then updateStatements (viewQueriesLoop ext (take i qs) constantPool)
      else snd (snd (tempAllocator ext
             (allocator (viewQueriesLoop ext (take i qs) constantPool))
             (updateStatements (viewQueriesLoop ext (take i qs) constantPool))))) @
     [specUpdateStatement ext
        (fst (tempAllocator ext
           (allocator (viewQueriesLoop ext (take i qs) constantPool))
           (updateStatements (viewQueriesLoop ext (take i qs) constantPool))))
        (qs ! i)]"
  using assms
  by (simp add: viewQueriesLoop_def take_Suc_conv_app_nth viewQueriesEach_update)

lemma contentQueriesLoop_round:
  assumes "i < length qs"
  shows "updateStatements (contentQueriesLoop ext (take (Suc i) qs) constantPool) =
     (if isSignal (qs ! i)
      then updateStatements (contentQueriesLoop ext (take i qs) constantPool)
      else snd (snd (tempAllocator ext
             (allocator (contentQueriesLoop ext (take i qs) constantPool))
             (updateStatements (contentQueriesLoop ext (take i qs) constantPool))))) @
     [specUpdateStatement ext
        (fst (tempAllocator ext
           (allocator (contentQueriesLoop ext (take i qs) constantPool))
           (updateStatements (contentQueriesLoop ext (take i qs) constantPool))))
        (qs ! i)]"
  using viewQueriesLoop_round [OF assms, of ext constantPool]
  by (simp add: loops_update_same)

text \<open>Signal queries only: the allocator is never called.\<close>

lemma view_all_signal:
  "\<forall>query\<in>set qs. isSignal query \<Longrightarrow>
   updateStatements (fold (viewQueriesEach ext) qs st) =
     updateStatements st @
     replicate (length qs)
       (ExpressionStatement (InvokeFunctionExpr (ExternalExpr queryAdvance) []))"
proof (induction qs arbitrary: st)
  case Nil
  then show ?case by simp
next
  case (Cons q qs)
  then show ?case
    using viewQueriesEach_signal [of q ext st]
    by (simp add: replicate_app_Cons_same)
qed

lemma viewQueriesLoop_all_signal:
  "\<forall>query\<in>set qs. isSignal query \<Longrightarrow>
   updateStatements (viewQueriesLoop ext qs constantPool) =
     replicate (length qs)
       (ExpressionStatement (InvokeFunctionExpr (ExternalExpr queryAdvance) []))"
  using view_all_signal [of qs ext "initialLocals ext constantPool"]
  by (simp add: viewQueriesLoop_def initialLocals_def)

text \<open>
  An allocator that only appends: the statements of the descriptors stay where the
  rounds put them, in the order of the descriptors.
\<close>

lemma map_upt_snoc:
  "map f [0..<length (xs @ [x])] = map f [0..<length xs] @ [f (length xs)]"
  by simp

lemma view_subseq:
  assumes app: "appendsOnly ext"
  shows "subseq
     (map (\<lambda>i. specUpdateStatement ext
                 (fst (tempAllocator ext
                    (allocator (fold (viewQueriesEach ext) (take i qs) st))
                    (updateStatements (fold (viewQueriesEach ext) (take i qs) st))))
                 (qs ! i))
          [0..<length qs])
     (updateStatements (fold (viewQueriesEach ext) qs st))"
proof (induction qs rule: rev_induct)
  case Nil
  then show ?case by simp
next
  case (snoc q qs)
  let ?L = "fold (viewQueriesEach ext) qs st"
  let ?own = "\<lambda>xs i. specUpdateStatement ext
                 (fst (tempAllocator ext
                    (allocator (fold (viewQueriesEach ext) (take i xs) st))
                    (updateStatements (fold (viewQueriesEach ext) (take i xs) st))))
                 (xs ! i)"
  have same: "map (?own (qs @ [q])) [0..<length qs] = map (?own qs) [0..<length qs]"
    by (rule map_cong) (simp_all add: nth_append)
  obtain added where added:
    "snd (snd (tempAllocator ext (allocator ?L) (updateStatements ?L))) =
       updateStatements ?L @ added"
    using app unfolding appendsOnly_def prefix_def by blast
  have last: "updateStatements (fold (viewQueriesEach ext) (qs @ [q]) st) =
      (updateStatements ?L @ (if isSignal q then [] else added)) @ [?own (qs @ [q]) (length qs)]"
    using added by (simp add: viewQueriesEach_update)
  have "subseq (map (?own qs) [0..<length qs]) (updateStatements ?L @ (if isSignal q then [] else added))"
    using snoc.IH by (rule list_emb_prefix)
  then have "subseq (map (?own qs) [0..<length qs] @ [?own (qs @ [q]) (length qs)])
      ((updateStatements ?L @ (if isSignal q then [] else added)) @ [?own (qs @ [q]) (length qs)])"
    by (simp only: subseq_append)
  moreover have "map (?own (qs @ [q])) [0..<length (qs @ [q])] =
      map (?own qs) [0..<length qs] @ [?own (qs @ [q]) (length qs)]"
    by (simp only: map_upt_snoc same)
  ultimately show ?case by (simp only: last)
qed

lemma viewQueriesLoop_subseq:
  assumes app: "appendsOnly ext"
  shows "subseq
     (map (\<lambda>i. specUpdateStatement ext
                 (fst (tempAllocator ext
                    (allocator (viewQueriesLoop ext (take i qs) constantPool))
                    (updateStatements (viewQueriesLoop ext (take i qs) constantPool))))
                 (qs ! i))
          [0..<length qs])
     (updateStatements (viewQueriesLoop ext qs constantPool))"
  using view_subseq [OF app, of qs "initialLocals ext constantPool"]
  by (simp add: viewQueriesLoop_def)

lemma contentQueriesLoop_all_signal:
  "\<forall>query\<in>set qs. isSignal query \<Longrightarrow>
   updateStatements (contentQueriesLoop ext qs constantPool) =
     replicate (length qs)
       (ExpressionStatement (InvokeFunctionExpr (ExternalExpr queryAdvance) []))"
  using viewQueriesLoop_all_signal [of qs ext constantPool]
  by (simp only: loops_update_same)

lemma contentQueriesLoop_subseq:
  assumes app: "appendsOnly ext"
  shows "subseq
     (map (\<lambda>i. specUpdateStatement ext
                 (fst (tempAllocator ext
                    (allocator (contentQueriesLoop ext (take i qs) constantPool))
                    (updateStatements (contentQueriesLoop ext (take i qs) constantPool))))
                 (qs ! i))
          [0..<length qs])
     (updateStatements (contentQueriesLoop ext qs constantPool))"
  using viewQueriesLoop_subseq [OF app, of qs constantPool]
  by (simp only: loops_update_same)

text \<open>
  C1, as the claim states it, fails for the update block: the allocator holds the
  update statements and can add to them. With the allocator that declares its
  variable at its first call, a signal query followed by a query with a selector give
  two creation statements and three update statements, and the second update
  statement is the declaration, not the statement of the second descriptor.
\<close>

theorem declaring_allocator_adds_to_update_block:
  "createViewQueriesFunction declaringExternals [sampleSignalQuery, sampleRefQuery] [] None =
     (FunctionExpr
        [FnParam ''rf'' (Some NUMBER_TYPE), FnParam ''ctx'' None]
        [renderFlagCheckIfStmt Create
           [ExpressionStatement
              (InvokeFunctionExpr (ExternalExpr viewQuerySignal)
                 [ReadPropExpr (ReadVarExpr ''ctx'') ''child'', ReadVarExpr ''Child'',
                  LiteralExpr (NumberValue 0)]),
            ExpressionStatement
              (InvokeFunctionExpr (ExternalExpr viewQuery)
                 [ReadVarExpr ''_c'', LiteralExpr (NumberValue 1)])],
         renderFlagCheckIfStmt Update
           [ExpressionStatement (InvokeFunctionExpr (ExternalExpr queryAdvance) []),
            DeclareVarStmt ''_t'',
            ExpressionStatement
              (BinaryOperatorExpr And
                 (InvokeFunctionExpr (ExternalExpr queryRefresh)
                    [WriteVarExpr ''_t'' (InvokeFunctionExpr (ExternalExpr loadQuery) [])])
                 (WritePropExpr (ReadVarExpr ''ctx'') ''items''
                    (ReadPropExpr (ReadVarExpr ''_t'') ''first'')))]]
        INFERRED_TYPE None,
      [LiteralArrayExpr [LiteralExpr (StringValue ''ref'')]]) \<and>
   createContentQueriesFunction declaringExternals [sampleSignalQuery, sampleRefQuery] []
     None =
     (FunctionExpr
        [FnParam ''rf'' (Some NUMBER_TYPE), FnParam ''ctx'' None, FnParam ''dirIndex'' None]
        [renderFlagCheckIfStmt Create
           [ExpressionStatement
              (InvokeFunctionExpr (ExternalExpr contentQuerySignal)
                 [ReadVarExpr ''dirIndex'', ReadPropExpr (ReadVarExpr ''ctx'') ''child'',
                  ReadVarExpr ''Child'', LiteralExpr (NumberValue 0)]),
            ExpressionStatement
              (InvokeFunctionExpr (ExternalExpr contentQuery)
                 [ReadVarExpr ''dirIndex'', ReadVarExpr ''_c'', LiteralExpr (NumberValue 1)])],
         renderFlagCheckIfStmt Update
           [ExpressionStatement (InvokeFunctionExpr (ExternalExpr queryAdvance) []),
            DeclareVarStmt ''_t'',
            ExpressionStatement
              (BinaryOperatorExpr And
                 (InvokeFunctionExpr (ExternalExpr queryRefresh)
                    [WriteVarExpr ''_t'' (InvokeFunctionExpr (ExternalExpr loadQuery) [])])
                 (WritePropExpr (ReadVarExpr ''ctx'') ''items''
                    (ReadPropExpr (ReadVarExpr ''_t'') ''first'')))]]
        INFERRED_TYPE None,
      [LiteralArrayExpr [LiteralExpr (StringValue ''ref'')]])"
  by (simp add: evaluation declaringExternals_def)

text \<open>
  C1, amended: for a list of N descriptors, N = 0 included, each of the two
  synthesizers builds a creation block of exactly N statements, the i-th of them the
  creation call of the i-th descriptor, in the pool as the descriptors before it left
  it. The update block is built in the order of the descriptors too: the round of the
  i-th descriptor appends exactly one statement of its own, the advance call for a
  signal query and the refresh-and-write statement otherwise, at the end of the update
  statements; for a query that is no signal query that is after the call of the
  allocator, which holds the same statements and may have added to them. So the update
  block has exactly N statements when every descriptor is a signal query; and for an
  allocator that only appends, it has at least N statements and holds the N statements
  of the descriptors in the order of the descriptors, with what the allocator added
  between them.
\<close>

theorem statement_lists_built_in_descriptor_order:
  "(\<exists>creation update parameters name' constantPool'.
      createViewQueriesFunction ext queries constantPool name =
        (FunctionExpr parameters
           [renderFlagCheckIfStmt Create creation, renderFlagCheckIfStmt Update update]
           INFERRED_TYPE name', constantPool') \<and>
      length creation = length queries \<and>
      (\<forall>i<length queries.
         creation ! i =
           ExpressionStatement (fst (createQueryCreateCall ext (queries ! i)
             (pool (viewQueriesLoop ext (take i queries) constantPool))
             \<lparr>signalBased = viewQuerySignal, nonSignal = viewQuery\<rparr> None))) \<and>
      update = updateStatements (viewQueriesLoop ext queries constantPool) \<and>
      (\<forall>i<length queries.
         updateStatements (viewQueriesLoop ext (take (Suc i) queries) constantPool) =
           (if isSignal (queries ! i)
            then updateStatements (viewQueriesLoop ext (take i queries) constantPool)
            else snd (snd (tempAllocator ext
                   (allocator (viewQueriesLoop ext (take i queries) constantPool))
                   (updateStatements (viewQueriesLoop ext (take i queries) constantPool))))) @
           [specUpdateStatement ext
              (fst (tempAllocator ext
                 (allocator (viewQueriesLoop ext (take i queries) constantPool))
                 (updateStatements (viewQueriesLoop ext (take i queries) constantPool))))
              (queries ! i)]) \<and>
      ((\<forall>query\<in>set queries. isSignal query) \<longrightarrow>
         update =
           replicate (length queries)
             (ExpressionStatement (InvokeFunctionExpr (ExternalExpr queryAdvance) []))) \<and>
      (appendsOnly ext \<longrightarrow>
         length queries \<le> length update \<and>
         subseq
           (map (\<lambda>i. specUpdateStatement ext
                       (fst (tempAllocator ext
                          (allocator (viewQueriesLoop ext (take i queries) constantPool))
                          (updateStatements
                             (viewQueriesLoop ext (take i queries) constantPool))))
                       (queries ! i))
                [0..<length queries])
           update)) \<and>
   (\<exists>creation update parameters name' constantPool'.
      createContentQueriesFunction ext queries constantPool name =
        (FunctionExpr parameters
           [renderFlagCheckIfStmt Create creation, renderFlagCheckIfStmt Update update]
           INFERRED_TYPE name', constantPool') \<and>
      length creation = length queries \<and>
      (\<forall>i<length queries.
         creation ! i =
           ExpressionStatement (fst (createQueryCreateCall ext (queries ! i)
             (pool (contentQueriesLoop ext (take i queries) constantPool))
             \<lparr>signalBased = contentQuerySignal, nonSignal = contentQuery\<rparr>
             (Some [ReadVarExpr ''dirIndex''])))) \<and>
      update = updateStatements (contentQueriesLoop ext queries constantPool) \<and>
      (\<forall>i<length queries.
         updateStatements (contentQueriesLoop ext (take (Suc i) queries) constantPool) =
           (if isSignal (queries ! i)
            then updateStatements (contentQueriesLoop ext (take i queries) constantPool)
            else snd (snd (tempAllocator ext
                   (allocator (contentQueriesLoop ext (take i queries) constantPool))
                   (updateStatements
                      (contentQueriesLoop ext (take i queries) constantPool))))) @
           [specUpdateStatement ext
              (fst (tempAllocator ext
                 (allocator (contentQueriesLoop ext (take i queries) constantPool))
                 (updateStatements (contentQueriesLoop ext (take i queries) constantPool))))
              (queries ! i)]) \<and>
      ((\<forall>query\<in>set queries. isSignal query) \<longrightarrow>
         update =
           replicate (length queries)
             (ExpressionStatement (InvokeFunctionExpr (ExternalExpr queryAdvance) []))) \<and>
      (appendsOnly ext \<longrightarrow>
         length queries \<le> length update \<and>
         subseq
           (map (\<lambda>i. specUpdateStatement ext
                       (fst (tempAllocator ext
                          (allocator (contentQueriesLoop ext (take i queries) constantPool))
                          (updateStatements
                             (contentQueriesLoop ext (take i queries) constantPool))))
                       (queries ! i))
                [0..<length queries])
           update))"
proof (rule conjI)
  have sub: "appendsOnly ext \<Longrightarrow>
      subseq
        (map (\<lambda>i. specUpdateStatement ext
                    (fst (tempAllocator ext
                       (allocator (viewQueriesLoop ext (take i queries) constantPool))
                       (updateStatements (viewQueriesLoop ext (take i queries) constantPool))))
                    (queries ! i))
             [0..<length queries])
        (updateStatements (viewQueriesLoop ext queries constantPool))"
    by (rule viewQueriesLoop_subseq)
  have len: "appendsOnly ext \<Longrightarrow>
      length queries \<le> length (updateStatements (viewQueriesLoop ext queries constantPool))"
    using list_emb_length [OF sub] by simp
  show "\<exists>creation update parameters name' constantPool'.
      createViewQueriesFunction ext queries constantPool name =
        (FunctionExpr parameters
           [renderFlagCheckIfStmt Create creation, renderFlagCheckIfStmt Update update]
           INFERRED_TYPE name', constantPool') \<and>
      length creation = length queries \<and>
      (\<forall>i<length queries.
         creation ! i =
           ExpressionStatement (fst (createQueryCreateCall ext (queries ! i)
             (pool (viewQueriesLoop ext (take i queries) constantPool))
             \<lparr>signalBased = viewQuerySignal, nonSignal = viewQuery\<rparr> None))) \<and>
      update = updateStatements (viewQueriesLoop ext queries constantPool) \<and>
      (\<forall>i<length queries.
         updateStatements (viewQueriesLoop ext (take (Suc i) queries) constantPool) =
           (if isSignal (queries ! i)
            then updateStatements (viewQueriesLoop ext (take i queries) constantPool)
            else snd (snd (tempAllocator ext
                   (allocator (viewQueriesLoop ext (take i queries) constantPool))
                   (updateStatements (viewQueriesLoop ext (take i queries) constantPool))))) @
           [specUpdateStatement ext
              (fst (tempAllocator ext
                 (allocator (viewQueriesLoop ext (take i queries) constantPool))
                 (updateStatements (viewQueriesLoop ext (take i queries) constantPool))))
              (queries ! i)]) \<and>
      ((\<forall>query\<in>set queries. isSignal query) \<longrightarrow>
         update =
           replicate (length queries)
             (ExpressionStatement (InvokeFunctionExpr (ExternalExpr queryAdvance) []))) \<and>
      (appendsOnly ext \<longrightarrow>
         length queries \<le> length update \<and>
         subseq
           (map (\<lambda>i. specUpdateStatement ext
                       (fst (tempAllocator ext
                          (allocator (viewQueriesLoop ext (take i queries) constantPool))
                          (updateStatements
                             (viewQueriesLoop ext (take i queries) constantPool))))
                       (queries ! i))
                [0..<length queries])
           update)"
    apply (intro exI conjI)
          apply (rule createViewQueriesFunction_parts)
         apply (rule viewQueriesLoop_create_length)
        apply (intro allI impI, erule viewQueriesLoop_create_nth)
       apply (rule refl)
      apply (intro allI impI, erule viewQueriesLoop_round)
     apply (intro impI, erule viewQueriesLoop_all_signal)
    apply (intro impI conjI, erule len, erule sub)
    done
next
  have sub: "appendsOnly ext \<Longrightarrow>
      subseq
        (map (\<lambda>i. specUpdateStatement ext
                    (fst (tempAllocator ext
                       (allocator (contentQueriesLoop ext (take i queries) constantPool))
                       (updateStatements
                          (contentQueriesLoop ext (take i queries) constantPool))))
                    (queries ! i))
             [0..<length queries])
        (updateStatements (contentQueriesLoop ext queries constantPool))"
    by (rule contentQueriesLoop_subseq)
  have len: "appendsOnly ext \<Longrightarrow>
      length queries \<le> length (updateStatements (contentQueriesLoop ext queries constantPool))"
    using list_emb_length [OF sub] by simp
  show "\<exists>creation update parameters name' constantPool'.
      createContentQueriesFunction ext queries constantPool name =
        (FunctionExpr parameters
           [renderFlagCheckIfStmt Create creation, renderFlagCheckIfStmt Update update]
           INFERRED_TYPE name', constantPool') \<and>
      length creation = length queries \<and>
      (\<forall>i<length queries.
         creation ! i =
           ExpressionStatement (fst (createQueryCreateCall ext (queries ! i)
             (pool (contentQueriesLoop ext (take i queries) constantPool))
             \<lparr>signalBased = contentQuerySignal, nonSignal = contentQuery\<rparr>
             (Some [ReadVarExpr ''dirIndex''])))) \<and>
      update = updateStatements (contentQueriesLoop ext queries constantPool) \<and>
      (\<forall>i<length queries.
         updateStatements (contentQueriesLoop ext (take (Suc i) queries) constantPool) =
           (if isSignal (queries ! i)
            then updateStatements (contentQueriesLoop ext (take i queries) constantPool)
            else snd (snd (tempAllocator ext
                   (allocator (contentQueriesLoop ext (take i queries) constantPool))
                   (updateStatements
                      (contentQueriesLoop ext (take i queries) constantPool))))) @
           [specUpdateStatement ext
              (fst (tempAllocator ext
                 (allocator (contentQueriesLoop ext (take i queries) constantPool))
                 (updateStatements (contentQueriesLoop ext (take i queries) constantPool))))
              (queries ! i)]) \<and>
      ((\<forall>query\<in>set queries. isSignal query) \<longrightarrow>
         update =
           replicate (length queries)
             (ExpressionStatement (InvokeFunctionExpr (ExternalExpr queryAdvance) []))) \<and>
      (appendsOnly ext \<longrightarrow>
         length queries \<le> length update \<and>
         subseq
           (map (\<lambda>i. specUpdateStatement ext
                       (fst (tempAllocator ext
                          (allocator (contentQueriesLoop ext (take i queries) constantPool))
                          (updateStatements
                             (contentQueriesLoop ext (take i queries) constantPool))))
                       (queries ! i))
                [0..<length queries])
           update)"
    apply (intro exI conjI)
          apply (rule createContentQueriesFunction_parts)
         apply (rule contentQueriesLoop_create_length)
        apply (intro allI impI, erule contentQueriesLoop_create_nth)
       apply (rule refl)
      apply (intro allI impI, erule contentQueriesLoop_round)
     apply (intro impI, erule contentQueriesLoop_all_signal)
    apply (intro impI conjI, erule len, erule sub)
    done
qed

text \<open>
  The end-to-end example of the spec with the allocator that declares its variable:
  two creation calls, and an update block of the declaration, the guarded write of
  \<^verbatim>\<open>first\<close> and one advance call. And two signal queries in the content synthesizer:
  two advance calls.
\<close>

theorem statement_lists_built_in_descriptor_order_witness:
  "appendsOnly declaringExternals \<and>
   (\<exists>creation update parameters name' constantPool'.
      createViewQueriesFunction declaringExternals [sampleRefQuery, sampleSignalQuery] []
        (Some ''Foo'') =
        (FunctionExpr parameters
           [renderFlagCheckIfStmt Create creation, renderFlagCheckIfStmt Update update]
           INFERRED_TYPE name', constantPool') \<and>
      length creation = 2 \<and>
      update =
        [DeclareVarStmt ''_t'',
         ExpressionStatement
           (BinaryOperatorExpr And
              (InvokeFunctionExpr (ExternalExpr queryRefresh)
                 [WriteVarExpr ''_t'' (InvokeFunctionExpr (ExternalExpr loadQuery) [])])
              (WritePropExpr (ReadVarExpr ''ctx'') ''items''
                 (ReadPropExpr (ReadVarExpr ''_t'') ''first''))),
         ExpressionStatement (InvokeFunctionExpr (ExternalExpr queryAdvance) [])] \<and>
      subseq
        [ExpressionStatement
           (BinaryOperatorExpr And
              (InvokeFunctionExpr (ExternalExpr queryRefresh)
                 [WriteVarExpr ''_t'' (InvokeFunctionExpr (ExternalExpr loadQuery) [])])
              (WritePropExpr (ReadVarExpr ''ctx'') ''items''
                 (ReadPropExpr (ReadVarExpr ''_t'') ''first''))),
         ExpressionStatement (InvokeFunctionExpr (ExternalExpr queryAdvance) [])]
        update) \<and>
   (\<exists>creation update parameters name' constantPool'.
      createContentQueriesFunction declaringExternals
        [sampleSignalQuery, sampleSignalQuery\<lparr>first := True\<rparr>] [] None =
        (FunctionExpr parameters
           [renderFlagCheckIfStmt Create creation, renderFlagCheckIfStmt Update update]
           INFERRED_TYPE name', constantPool') \<and>
      length creation = 2 \<and>
      update =
        [ExpressionStatement (InvokeFunctionExpr (ExternalExpr queryAdvance) []),
         ExpressionStatement (InvokeFunctionExpr (ExternalExpr queryAdvance) [])])"
proof (intro conjI)
  show app: "appendsOnly declaringExternals"
    by (simp add: appendsOnly_def declaringExternals_def)
  let ?qs = "[sampleRefQuery, sampleSignalQuery]"
  from statement_lists_built_in_descriptor_order
         [of declaringExternals ?qs "[]" "Some ''Foo''", THEN conjunct1]
  obtain creation update parameters name' constantPool' where
    eq: "createViewQueriesFunction declaringExternals ?qs [] (Some ''Foo'') =
        (FunctionExpr parameters
           [renderFlagCheckIfStmt Create creation, renderFlagCheckIfStmt Update update]
           INFERRED_TYPE name', constantPool')"
    and lc: "length creation = length ?qs"
    and u: "update = updateStatements (viewQueriesLoop declaringExternals ?qs [])"
    and ap: "appendsOnly declaringExternals \<longrightarrow>
         length ?qs \<le> length update \<and>
         subseq
           (map (\<lambda>i. specUpdateStatement declaringExternals
                       (fst (tempAllocator declaringExternals
                          (allocator (viewQueriesLoop declaringExternals (take i ?qs) []))
                          (updateStatements
                             (viewQueriesLoop declaringExternals (take i ?qs) []))))
                       (?qs ! i))
                [0..<length ?qs])
           update"
    by blast
  have uval: "update =
        [DeclareVarStmt ''_t'',
         ExpressionStatement
           (BinaryOperatorExpr And
              (InvokeFunctionExpr (ExternalExpr queryRefresh)
                 [WriteVarExpr ''_t'' (InvokeFunctionExpr (ExternalExpr loadQuery) [])])
              (WritePropExpr (ReadVarExpr ''ctx'') ''items''
                 (ReadPropExpr (ReadVarExpr ''_t'') ''first''))),
         ExpressionStatement (InvokeFunctionExpr (ExternalExpr queryAdvance) [])]"
    unfolding u by (simp add: evaluation declaringExternals_def)
  have own: "map (\<lambda>i. specUpdateStatement declaringExternals
                       (fst (tempAllocator declaringExternals
                          (allocator (viewQueriesLoop declaringExternals (take i ?qs) []))
                          (updateStatements
                             (viewQueriesLoop declaringExternals (take i ?qs) []))))
                       (?qs ! i))
                [0..<length ?qs] =
        [ExpressionStatement
           (BinaryOperatorExpr And
              (InvokeFunctionExpr (ExternalExpr queryRefresh)
                 [WriteVarExpr ''_t'' (InvokeFunctionExpr (ExternalExpr loadQuery) [])])
              (WritePropExpr (ReadVarExpr ''ctx'') ''items''
                 (ReadPropExpr (ReadVarExpr ''_t'') ''first''))),
         ExpressionStatement (InvokeFunctionExpr (ExternalExpr queryAdvance) [])]"
    by (simp add: evaluation declaringExternals_def)
  have sub: "subseq
        [ExpressionStatement
           (BinaryOperatorExpr And
              (InvokeFunctionExpr (ExternalExpr queryRefresh)
                 [WriteVarExpr ''_t'' (InvokeFunctionExpr (ExternalExpr loadQuery) [])])
              (WritePropExpr (ReadVarExpr ''ctx'') ''items''
                 (ReadPropExpr (ReadVarExpr ''_t'') ''first''))),
         ExpressionStatement (InvokeFunctionExpr (ExternalExpr queryAdvance) [])]
        update"
    using ap app by (simp only: own)
  have l2: "length creation = 2" using lc by simp
  from eq l2 uval sub
  show "\<exists>creation update parameters name' constantPool'.
      createViewQueriesFunction declaringExternals [sampleRefQuery, sampleSignalQuery] []
        (Some ''Foo'') =
        (FunctionExpr parameters
           [renderFlagCheckIfStmt Create creation, renderFlagCheckIfStmt Update update]
           INFERRED_TYPE name', constantPool') \<and>
      length creation = 2 \<and>
      update =
        [DeclareVarStmt ''_t'',
         ExpressionStatement
           (BinaryOperatorExpr And
              (InvokeFunctionExpr (ExternalExpr queryRefresh)
                 [WriteVarExpr ''_t'' (InvokeFunctionExpr (ExternalExpr loadQuery) [])])
              (WritePropExpr (ReadVarExpr ''ctx'') ''items''
                 (ReadPropExpr (ReadVarExpr ''_t'') ''first''))),
         ExpressionStatement (InvokeFunctionExpr (ExternalExpr queryAdvance) [])] \<and>
      subseq
        [ExpressionStatement
           (BinaryOperatorExpr And
              (InvokeFunctionExpr (ExternalExpr queryRefresh)
                 [WriteVarExpr ''_t'' (InvokeFunctionExpr (ExternalExpr loadQuery) [])])
              (WritePropExpr (ReadVarExpr ''ctx'') ''items''
                 (ReadPropExpr (ReadVarExpr ''_t'') ''first''))),
         ExpressionStatement (InvokeFunctionExpr (ExternalExpr queryAdvance) [])]
        update"
    by blast
  let ?ss = "[sampleSignalQuery, sampleSignalQuery\<lparr>first := True\<rparr>]"
  have sig: "\<forall>query\<in>set ?ss. isSignal query"
    by (simp add: sampleSignalQuery_def)
  from statement_lists_built_in_descriptor_order
         [of declaringExternals ?ss "[]" None, THEN conjunct2]
  obtain creation' update' parameters' name'' constantPool'' where
    eq': "createContentQueriesFunction declaringExternals ?ss [] None =
        (FunctionExpr parameters'
           [renderFlagCheckIfStmt Create creation', renderFlagCheckIfStmt Update update']
           INFERRED_TYPE name'', constantPool'')"
    and lc': "length creation' = length ?ss"
    and al: "(\<forall>query\<in>set ?ss. isSignal query) \<longrightarrow>
         update' =
           replicate (length ?ss)
             (ExpressionStatement (InvokeFunctionExpr (ExternalExpr queryAdvance) []))"
    by blast
  have u2: "update' =
        [ExpressionStatement (InvokeFunctionExpr (ExternalExpr queryAdvance) []),
         ExpressionStatement (InvokeFunctionExpr (ExternalExpr queryAdvance) [])]"
    using al sig by (simp add: numeral_2_eq_2)
  have l2': "length creation' = 2" using lc' by simp
  from eq' l2' u2
  show "\<exists>creation update parameters name' constantPool'.
      createContentQueriesFunction declaringExternals
        [sampleSignalQuery, sampleSignalQuery\<lparr>first := True\<rparr>] [] None =
        (FunctionExpr parameters
           [renderFlagCheckIfStmt Create creation, renderFlagCheckIfStmt Update update]
           INFERRED_TYPE name', constantPool') \<and>
      length creation = 2 \<and>
      update =
        [ExpressionStatement (InvokeFunctionExpr (ExternalExpr queryAdvance) []),
         ExpressionStatement (InvokeFunctionExpr (ExternalExpr queryAdvance) [])]"
    by blast
qed

text \<open>
  C9, as the claim states it, fails for the owner name that is the empty string: the
  name is tested for truthiness, so the functions are anonymous there, not named
  \<^verbatim>\<open>_Query\<close> and \<^verbatim>\<open>_ContentQueries\<close>.
\<close>

theorem empty_owner_name_is_anonymous:
  "createViewQueriesFunction sampleExternals [] [] (Some '''') =
     (FunctionExpr [FnParam ''rf'' (Some NUMBER_TYPE), FnParam ''ctx'' None]
        [renderFlagCheckIfStmt Create [], renderFlagCheckIfStmt Update []]
        INFERRED_TYPE None, []) \<and>
   createContentQueriesFunction sampleExternals [] [] (Some '''') =
     (FunctionExpr
        [FnParam ''rf'' (Some NUMBER_TYPE), FnParam ''ctx'' None, FnParam ''dirIndex'' None]
        [renderFlagCheckIfStmt Create [], renderFlagCheckIfStmt Update []]
        INFERRED_TYPE None, [])"
  by (simp add: evaluation)

text \<open>
  C9, amended: for every owner name that is not the empty string the function of
  \<open>createViewQueriesFunction\<close> is named by the owner name followed by \<^verbatim>\<open>_Query\<close> and the
  one of \<open>createContentQueriesFunction\<close> by the owner name followed by
  \<^verbatim>\<open>_ContentQueries\<close>; with no owner name, or the empty one, the function is anonymous.
\<close>

theorem synthesized_function_names:
  "\<exists>parameters body constantPool' parameters' body' constantPool''.
     createViewQueriesFunction ext queries constantPool name =
       (FunctionExpr parameters body INFERRED_TYPE
          (case name of
             None \<Rightarrow> None
           | Some owner \<Rightarrow> if owner = '''' then None else Some (owner @ ''_Query'')),
        constantPool') \<and>
     createContentQueriesFunction ext queries constantPool name =
       (FunctionExpr parameters' body' INFERRED_TYPE
          (case name of
             None \<Rightarrow> None
           | Some owner \<Rightarrow> if owner = '''' then None else Some (owner @ ''_ContentQueries'')),
        constantPool'')"
  by (simp add: createViewQueriesFunction_parts createContentQueriesFunction_parts)

theorem synthesized_function_names_witness:
  "(\<exists>parameters body constantPool'.
      createViewQueriesFunction sampleExternals [sampleSignalQuery] [] (Some ''Foo'') =
        (FunctionExpr parameters body INFERRED_TYPE (Some ''Foo_Query''), constantPool')) \<and>
   (\<exists>parameters body constantPool'.
      createContentQueriesFunction sampleExternals [sampleSignalQuery] [] (Some ''Foo'') =
        (FunctionExpr parameters body INFERRED_TYPE (Some ''Foo_ContentQueries''),
         constantPool')) \<and>
   (\<exists>parameters body constantPool'.
      createViewQueriesFunction sampleExternals [sampleSignalQuery] [] None =
        (FunctionExpr parameters body INFERRED_TYPE None, constantPool')) \<and>
   (\<exists>parameters body constantPool'.
      createContentQueriesFunction sampleExternals [sampleSignalQuery] [] None =
        (FunctionExpr parameters body INFERRED_TYPE None, constantPool'))"
  using
    synthesized_function_names [of sampleExternals "[sampleSignalQuery]" "[]" "Some ''Foo''"]
    synthesized_function_names [of sampleExternals "[sampleSignalQuery]" "[]" None]
  by simp

text \<open>
  C10: for the same descriptors and the same pool (and the same collaborators, the
  allocator whatever it does) the two synthesizers build the same update block and
  leave the same pool. Their functions differ in the third parameter, in the name, and
  in the creation block, whose i-th call in the content synthesizer has the content
  instruction in place of the view instruction and the directive index before the
  same arguments.
\<close>

theorem content_updates_equal_view_updates:
  "\<exists>creation creation' update name' name'' constantPool'.
     createViewQueriesFunction ext queries constantPool name =
       (FunctionExpr
          [FnParam (RENDER_FLAGS ext) (Some NUMBER_TYPE), FnParam (CONTEXT_NAME ext) None]
          [renderFlagCheckIfStmt Create creation, renderFlagCheckIfStmt Update update]
          INFERRED_TYPE name', constantPool') \<and>
     createContentQueriesFunction ext queries constantPool name =
       (FunctionExpr
          [FnParam (RENDER_FLAGS ext) (Some NUMBER_TYPE), FnParam (CONTEXT_NAME ext) None,
           FnParam ''dirIndex'' None]
          [renderFlagCheckIfStmt Create creation', renderFlagCheckIfStmt Update update]
          INFERRED_TYPE name'', constantPool') \<and>
     length creation = length queries \<and> length creation' = length queries \<and>
     (\<forall>i<length queries. \<exists>arguments.
        creation ! i =
          ExpressionStatement
            (InvokeFunctionExpr
               (ExternalExpr (if isSignal (queries ! i) then viewQuerySignal else viewQuery))
               arguments) \<and>
        creation' ! i =
          ExpressionStatement
            (InvokeFunctionExpr
               (ExternalExpr
                  (if isSignal (queries ! i) then contentQuerySignal else contentQuery))
               (ReadVarExpr ''dirIndex'' # arguments)))"
proof -
  let ?v = "viewQueriesLoop ext queries constantPool"
  let ?c = "contentQueriesLoop ext queries constantPool"
  have same: "updateStatements ?c = updateStatements ?v" "pool ?c = pool ?v"
    by (simp_all add: loops_update_same)
  have nth: "\<exists>arguments.
        createStatements ?v ! i =
          ExpressionStatement
            (InvokeFunctionExpr
               (ExternalExpr (if isSignal (queries ! i) then viewQuerySignal else viewQuery))
               arguments) \<and>
        createStatements ?c ! i =
          ExpressionStatement
            (InvokeFunctionExpr
               (ExternalExpr
                  (if isSignal (queries ! i) then contentQuerySignal else contentQuery))
               (ReadVarExpr ''dirIndex'' # arguments))" if "i < length queries" for i
    using viewQueriesLoop_create_nth [OF that, of ext constantPool]
      contentQueriesLoop_create_nth [OF that, of ext constantPool]
      loops_update_same [of ext "take i queries" constantPool]
    by (simp add: createQueryCreateCall_def Let_def split: prod.splits option.splits)
  show ?thesis
    using createViewQueriesFunction_parts [of ext queries constantPool name]
      createContentQueriesFunction_parts [of ext queries constantPool name]
      viewQueriesLoop_create_length [of ext queries constantPool]
      contentQueriesLoop_create_length [of ext queries constantPool]
      same nth
    by (metis (no_types, lifting))
qed

theorem content_updates_equal_view_updates_witness:
  "\<exists>creation creation' update.
     fst (createViewQueriesFunction sampleExternals [sampleWrappedQuery, sampleSignalQuery]
            [] None) =
       FunctionExpr [FnParam ''rf'' (Some NUMBER_TYPE), FnParam ''ctx'' None]
         [renderFlagCheckIfStmt Create creation, renderFlagCheckIfStmt Update update]
         INFERRED_TYPE None \<and>
     fst (createContentQueriesFunction sampleExternals [sampleWrappedQuery, sampleSignalQuery]
            [] None) =
       FunctionExpr
         [FnParam ''rf'' (Some NUMBER_TYPE), FnParam ''ctx'' None, FnParam ''dirIndex'' None]
         [renderFlagCheckIfStmt Create creation', renderFlagCheckIfStmt Update update]
         INFERRED_TYPE None \<and>
     update =
       [ExpressionStatement
          (BinaryOperatorExpr And
             (InvokeFunctionExpr (ExternalExpr queryRefresh)
                [WriteVarExpr ''_t'' (InvokeFunctionExpr (ExternalExpr loadQuery) [])])
             (WritePropExpr (ReadVarExpr ''ctx'') ''panes'' (ReadVarExpr ''_t''))),
        ExpressionStatement (InvokeFunctionExpr (ExternalExpr queryAdvance) [])]"
  using content_updates_equal_view_updates [of sampleExternals
      "[sampleWrappedQuery, sampleSignalQuery]" "[]" None]
  by (simp add: evaluation)

end
